theory Spec2Isabelle
  imports Complex_Main "HOL-Library.Monad_Syntax"
begin

section \<open>The IMPERIAL-LSU velocity model (ivlsu.c, ivlsu.h)\<close>

text \<open>
  Conventions of the embedding.
  \<^item> A C \<open>double\<close> or \<open>float\<close> is a \<open>real\<close>: rounding, infinities and NaN are outside the
    model, except for \<open>ivlsu_calculate_density\<close>, which is also given in the arithmetic of
    binary64 (every operation rounded once to nearest, ties to even, without contraction
    to fused operations). Where the C code divides, the model divides (in HOL \<open>x / 0 = 0\<close>, in C the
    quotient is infinite or NaN), so a theorem that depends on a quotient names the
    divisor's sign or non-zeroness as a hypothesis.
  \<^item> A C \<open>int\<close> is an \<open>int\<close>; a conversion \<open>(int) r\<close> truncates towards zero and is
    undefined outside the 32-bit range.
  \<^item> A pointer to an array is the function from offsets to elements (\<open>nat \<Rightarrow> 'a\<close>), a
    pointer that may be \<open>NULL\<close> is an \<open>option\<close>.
  \<^item> A function that may run into undefined behaviour of C (a null stream, a read outside
    an array, an out-of-range conversion) returns an \<open>option\<close>, \<open>None\<close> being that
    undefined behaviour.
\<close>

subsection \<open>Structures of ivlsu.h\<close>

text \<open>\<open>SUCCESS\<close>, \<open>FAIL\<close> and \<open>NA\<close> of ivlsu.h.\<close>

definition SUCCESS :: int where
  "SUCCESS = 0"

definition FAIL :: int where
  "FAIL = 1"

definition NA :: int where
  "NA = - 1"

record ivlsu_point_t =
  longitude :: real
  latitude :: real
  depth :: real

record ivlsu_properties_t =
  vp :: real
  vs :: real
  rho :: real
  qp :: real
  qs :: real

text \<open>
  The configuration structure. Its field \<open>depth\<close> is \<open>model_depth\<close> here, the name
  \<open>depth\<close> being the field of the point.
\<close>

record ivlsu_configuration_t =
  utm_zone :: int
  model_dir :: string
  nx :: int
  ny :: int
  nz :: int
  model_depth :: real
  top_left_corner_e :: real
  top_left_corner_n :: real
  top_right_corner_e :: real
  top_right_corner_n :: real
  bottom_left_corner_e :: real
  bottom_left_corner_n :: real
  bottom_right_corner_e :: real
  bottom_right_corner_n :: real
  depth_interval :: real
  p5 :: real
  interpolation :: int

text \<open>
  The model structure. Its \<open>void *vp\<close> (here \<open>vp_ptr\<close>) is null, points to the floats
  read into memory, or is the stream opened on the file \<open>vp.dat\<close>, whose floats it gives.
\<close>

datatype vp_pointer = VpNull | VpMemory "real list" | VpStream "real list"

record ivlsu_model_t =
  vp_ptr :: vp_pointer
  vp_status :: int

text \<open>
  The Proj library is not part of the repository. A transformation object (\<open>PJ *\<close>) is
  modelled by what \<open>proj_trans\<close> with \<open>PJ_FWD\<close>, followed by \<open>proj_context_errno\<close>,
  gives on it for the coordinates \<open>proj_coord(lat, lon, 0, HUGE_VAL)\<close>: the error number
  and the \<open>x\<close> and \<open>y\<close> of the destination.
\<close>

type_synonym PJ = "real \<Rightarrow> real \<Rightarrow> int \<times> real \<times> real"

text \<open>The global variables of ivlsu.h and ivlsu.c.\<close>

record ivlsu_globals =
  ivlsu_is_initialized :: int
  ivlsu_configuration :: "ivlsu_configuration_t option"
  ivlsu_velocity_model :: "ivlsu_model_t option"
  ivlsu_geo2utm :: "PJ option"
  ivlsu_data_directory :: string
  ivlsu_config_string :: "string option"
  ivlsu_config_sz :: int
  ivlsu_cos_rotation_angle :: real
  ivlsu_sin_rotation_angle :: real
  ivlsu_total_height_m :: real
  ivlsu_total_width_m :: real

subsection \<open>Arithmetic of C\<close>

text \<open>The conversion of a double to an integer value: the fraction is discarded.\<close>

definition c_trunc :: "real \<Rightarrow> int" where
  "c_trunc r = (if 0 \<le> r then \<lfloor>r\<rfloor> else \<lceil>r\<rceil>)"

text \<open>\<open>(int) r\<close>: undefined when the truncated value is not an \<open>int\<close> of 32 bits.\<close>

definition double_to_int :: "real \<Rightarrow> int option" where
  "double_to_int r =
     (if - 2147483648 \<le> c_trunc r \<and> c_trunc r \<le> 2147483647 then Some (c_trunc r) else None)"

text \<open>\<open>round\<close> of math.h: to the nearest integer, halfway cases away from zero.\<close>

definition c_round :: "real \<Rightarrow> real" where
  "c_round r = (if 0 \<le> r then of_int \<lfloor>r + 1 / 2\<rfloor> else of_int \<lceil>r - 1 / 2\<rceil>)"

text \<open>\<open>fmod\<close> of math.h: \<open>x - n * y\<close> with \<open>n\<close> the quotient truncated towards zero.\<close>

definition c_fmod :: "real \<Rightarrow> real \<Rightarrow> real" where
  "c_fmod x y = x - of_int (c_trunc (x / y)) * y"

subsection \<open>Arithmetic of binary64\<close>

text \<open>
  A \<open>double\<close> as a value: a real number, an infinity or NaN. The sign of zero is not kept:
  \<open>ivlsu_calculate_density\<close> never divides, and it replaces every result below 1 by 1, so
  the sign of a zero does not reach its result.
\<close>

datatype double = Finite real | PInf | NInf | NaN

text \<open>The exponent of a positive number: \<open>2 powi ilog2 x \<le> x < 2 powi (ilog2 x + 1)\<close>.\<close>

function ilog2 :: "real \<Rightarrow> int" where
  "ilog2 x = (if 2 \<le> x then ilog2 (x / 2) + 1
              else if 0 < x \<and> x < 1 then ilog2 (2 * x) - 1
              else 0)"
  by pat_completeness auto
termination
proof (relation "measure (\<lambda>x. nat \<bar>\<lfloor>log 2 x\<rfloor>\<bar>)")
  show "wf (measure (\<lambda>x. nat \<bar>\<lfloor>log 2 x\<rfloor>\<bar>))" by simp
next
  fix x :: real
  assume x: "2 \<le> x"
  then have "log 2 (x / 2) = log 2 x - 1" by (simp add: log_divide)
  then have half: "\<lfloor>log 2 (x / 2)\<rfloor> = \<lfloor>log 2 x\<rfloor> - 1" by simp
  from x have "1 \<le> log 2 x" by (simp add: le_log_iff)
  then have "1 \<le> \<lfloor>log 2 x\<rfloor>" by linarith
  then show "(x / 2, x) \<in> measure (\<lambda>x. nat \<bar>\<lfloor>log 2 x\<rfloor>\<bar>)"
    unfolding in_measure half by linarith
next
  fix x :: real
  assume "\<not> 2 \<le> x" and x: "0 < x \<and> x < 1"
  then have "log 2 (2 * x) = 1 + log 2 x" by (simp add: log_mult)
  then have twice: "\<lfloor>log 2 (2 * x)\<rfloor> = \<lfloor>log 2 x\<rfloor> + 1" by simp
  from x have "log 2 x < 0" by simp
  then have "\<lfloor>log 2 x\<rfloor> \<le> - 1" by linarith
  then show "(2 * x, x) \<in> measure (\<lambda>x. nat \<bar>\<lfloor>log 2 x\<rfloor>\<bar>)"
    unfolding in_measure twice by linarith
qed

declare ilog2.simps [simp del]

text \<open>The nearest integer, a tie going to the even one.\<close>

definition round_half_even :: "real \<Rightarrow> int" where
  "round_half_even q =
     (let f = \<lfloor>q\<rfloor>; r = q - of_int f
      in if r < 1 / 2 then f else if 1 / 2 < r then f + 1 else if even f then f else f + 1)"

text \<open>
  Rounding to nearest, ties to even, with a significand of 53 bits and no upper bound on the
  exponent: the unit in the last place is \<open>2 powi (ilog2 \<bar>x\<bar> - 52)\<close>, and \<open>2 powi (- 1074)\<close>
  for the subnormal numbers.
\<close>

definition round_real :: "real \<Rightarrow> real" where
  "round_real x =
     (if x = 0 then 0
      else (let e = max (ilog2 \<bar>x\<bar> - 52) (- 1074)
            in of_int (round_half_even (x / 2 powi e)) * 2 powi e))"

text \<open>The rounding of binary64: a rounded magnitude of \<open>2 ^ 1024\<close> or more overflows.\<close>

definition round_double :: "real \<Rightarrow> double" where
  "round_double x =
     (let r = round_real x
      in if 2 ^ 1024 \<le> r then PInf else if r \<le> - (2 ^ 1024) then NInf else Finite r)"

text \<open>
  The operations \<open>*\<close>, \<open>+\<close>, unary and binary \<open>-\<close> and \<open><\<close> on doubles: the exact result,
  rounded once.
\<close>

fun double_mult :: "double \<Rightarrow> double \<Rightarrow> double" where
  "double_mult (Finite a) (Finite b) = round_double (a * b)"
| "double_mult NaN y = NaN"
| "double_mult x NaN = NaN"
| "double_mult (Finite a) PInf = (if a = 0 then NaN else if 0 < a then PInf else NInf)"
| "double_mult (Finite a) NInf = (if a = 0 then NaN else if 0 < a then NInf else PInf)"
| "double_mult PInf (Finite b) = (if b = 0 then NaN else if 0 < b then PInf else NInf)"
| "double_mult NInf (Finite b) = (if b = 0 then NaN else if 0 < b then NInf else PInf)"
| "double_mult PInf PInf = PInf"
| "double_mult PInf NInf = NInf"
| "double_mult NInf PInf = NInf"
| "double_mult NInf NInf = PInf"

fun double_add :: "double \<Rightarrow> double \<Rightarrow> double" where
  "double_add (Finite a) (Finite b) = round_double (a + b)"
| "double_add NaN y = NaN"
| "double_add x NaN = NaN"
| "double_add PInf NInf = NaN"
| "double_add NInf PInf = NaN"
| "double_add PInf y = PInf"
| "double_add x PInf = PInf"
| "double_add NInf y = NInf"
| "double_add x NInf = NInf"

fun double_neg :: "double \<Rightarrow> double" where
  "double_neg (Finite a) = Finite (- a)"
| "double_neg PInf = NInf"
| "double_neg NInf = PInf"
| "double_neg NaN = NaN"

definition double_sub :: "double \<Rightarrow> double \<Rightarrow> double" where
  "double_sub x y = double_add x (double_neg y)"

fun double_less :: "double \<Rightarrow> double \<Rightarrow> bool" where
  "double_less (Finite a) (Finite b) \<longleftrightarrow> a < b"
| "double_less NaN y \<longleftrightarrow> False"
| "double_less x NaN \<longleftrightarrow> False"
| "double_less x NInf \<longleftrightarrow> False"
| "double_less PInf y \<longleftrightarrow> False"
| "double_less NInf y \<longleftrightarrow> True"
| "double_less x PInf \<longleftrightarrow> True"

subsection \<open>Coordinate transformation (ivlsu.c, lines 25 to 38)\<close>

text \<open>
  \<open>to_utm\<close> writes \<open>*point_u\<close> and \<open>*point_v\<close> only when the transformation reports no
  error: it returns its return value and the two variables as they are afterwards.
  \<open>UCVM_CODE_ERROR\<close> is a macro of ucvm_model_dtypes.h, which is not part of the
  repository: its value is the parameter \<open>code_error\<close>. What \<open>proj_trans\<close> does on a null
  object is the library's matter and outside the model.
\<close>

definition to_utm ::
  "int \<Rightarrow> ivlsu_globals \<Rightarrow> real \<Rightarrow> real \<Rightarrow> real \<Rightarrow> real \<Rightarrow> (int \<times> real \<times> real) option" where
  "to_utm code_error g lon lat point_u point_v =
     (case ivlsu_geo2utm g of
        None \<Rightarrow> None
      | Some P \<Rightarrow>
          (case P lat lon of
             (err, x, y) \<Rightarrow>
               if err \<noteq> 0 then Some (code_error, point_u, point_v)
               else Some (err, x, y)))"

subsection \<open>Reading a lattice point (ivlsu.c, lines 279 to 304)\<close>

text \<open>
  \<open>data\<close> is the record that the pointer \<open>data\<close> points to, returned as written. The
  function dereferences \<open>ivlsu_configuration\<close> and \<open>ivlsu_velocity_model\<close>. With status 2
  it reads \<open>ptr[location]\<close>, undefined outside the floats in memory. With status 1 it
  calls \<open>fseek\<close> and \<open>fread\<close> on its local \<open>fp\<close>, which line 289 sets to \<open>NULL\<close> and
  nothing assigns afterwards: a null stream, undefined.
\<close>

definition ivlsu_read_properties ::
  "ivlsu_globals \<Rightarrow> int \<Rightarrow> int \<Rightarrow> int \<Rightarrow> ivlsu_properties_t \<Rightarrow> ivlsu_properties_t option" where
  "ivlsu_read_properties g x y z data =
     (let data = data \<lparr> vp := - 1, vs := - 1, rho := - 1 \<rparr>
      in case ivlsu_configuration g of
           None \<Rightarrow> None
         | Some c \<Rightarrow>
             (let location = z * (nx c * ny c) + (y * nx c) + x
              in case ivlsu_velocity_model g of
                   None \<Rightarrow> None
                 | Some m \<Rightarrow>
                     if vp_status m = 2 then
                       (case vp_ptr m of
                          VpMemory ptr \<Rightarrow>
                            if 0 \<le> location \<and> location < int (length ptr)
                            then Some (data \<lparr> vp := ptr ! nat location \<rparr>)
                            else None
                        | _ \<Rightarrow> None)
                     else if vp_status m = 1 then None
                     else Some data))"

subsection \<open>Interpolation (ivlsu.c, lines 316 to 368)\<close>

text \<open>
  Each interpolation writes \<open>vp\<close>, \<open>vs\<close> and \<open>rho\<close> of \<open>*ret_properties\<close> and nothing
  else; the record that \<open>ret_properties\<close> points to is an argument, returned updated.
\<close>

definition ivlsu_linear_interpolation ::
  "real \<Rightarrow> ivlsu_properties_t \<Rightarrow> ivlsu_properties_t \<Rightarrow> ivlsu_properties_t \<Rightarrow> ivlsu_properties_t" where
  "ivlsu_linear_interpolation percent x0 x1 ret_properties =
     ret_properties
       \<lparr> vp := (1 - percent) * vp x0 + percent * vp x1,
         vs := (1 - percent) * vs x0 + percent * vs x1,
         rho := (1 - percent) * rho x0 + percent * rho x1 \<rparr>"

text \<open>What \<open>calloc\<close> gives for one \<open>ivlsu_properties_t\<close>: all bytes zero.\<close>

definition calloc_properties :: ivlsu_properties_t where
  "calloc_properties = \<lparr> vp = 0, vs = 0, rho = 0, qp = 0, qs = 0 \<rparr>"

definition ivlsu_bilinear_interpolation ::
  "real \<Rightarrow> real \<Rightarrow> (nat \<Rightarrow> ivlsu_properties_t) \<Rightarrow> ivlsu_properties_t \<Rightarrow> ivlsu_properties_t" where
  "ivlsu_bilinear_interpolation x_percent y_percent four_points ret_properties =
     (let temp0 = ivlsu_linear_interpolation x_percent (four_points 0) (four_points 1) calloc_properties;
          temp1 = ivlsu_linear_interpolation x_percent (four_points 2) (four_points 3) calloc_properties
      in ivlsu_linear_interpolation y_percent temp0 temp1 ret_properties)"

text \<open>\<open>four_points += 4\<close> is the shift of the offsets by four.\<close>

definition ivlsu_trilinear_interpolation ::
  "real \<Rightarrow> real \<Rightarrow> real \<Rightarrow> (nat \<Rightarrow> ivlsu_properties_t) \<Rightarrow> ivlsu_properties_t \<Rightarrow> ivlsu_properties_t" where
  "ivlsu_trilinear_interpolation x_percent y_percent z_percent eight_points ret_properties =
     (let four_points = eight_points;
          temp0 = ivlsu_bilinear_interpolation x_percent y_percent four_points calloc_properties;
          four_points = (\<lambda>k. eight_points (k + 4));
          temp1 = ivlsu_bilinear_interpolation x_percent y_percent four_points calloc_properties
      in ivlsu_linear_interpolation z_percent temp0 temp1 ret_properties)"

subsection \<open>Derived properties (ivlsu.c, lines 513 to 552)\<close>

text \<open>
  \<open>ivlsu_calculate_density\<close> (lines 513 to 528) in the arithmetic of binary64: every literal
  is the double nearest to it, every product, sum and difference is rounded, and the products
  associate to the left as in C.
\<close>

definition ivlsu_calculate_density :: "double \<Rightarrow> double" where
  "ivlsu_calculate_density vp0 =
     (let vp = double_mult vp0 (round_double 0.001);
          t1 = (double_mult vp (round_double 1.6612));
          t2 = (double_mult (double_mult vp vp) (round_double 0.4721));
          t3 = (double_mult (double_mult (double_mult vp vp) vp) (round_double 0.0671));
          t4 = (double_mult (double_mult (double_mult (double_mult vp vp) vp) vp)
                  (round_double 0.0043));
          t5 = (double_mult (double_mult (double_mult (double_mult (double_mult vp vp) vp) vp) vp)
                  (round_double 0.000106));
          retVal = double_add (double_sub (double_add (double_sub t1 t2) t3) t4) t5;
          retVal = (if double_less retVal (round_double 1.0) then round_double 1.0 else retVal);
          retVal = double_mult retVal (round_double 1000.0)
      in retVal)"

text \<open>
  The same lines without rounding. This is the density that the query of this model stores,
  its doubles being reals; \<open>density_exact_close\<close> below bounds the distance between the two for a
  velocity between 1500 and 8000 m/s.
\<close>

definition ivlsu_calculate_density_exact :: "real \<Rightarrow> real" where
  "ivlsu_calculate_density_exact vp0 =
     (let vp = vp0 * 0.001;
          t1 = (vp * 1.6612);
          t2 = ((vp * vp) * 0.4721);
          t3 = ((vp * vp * vp) * 0.0671);
          t4 = ((vp * vp * vp * vp) * 0.0043);
          t5 = ((vp * vp * vp * vp * vp) * 0.000106);
          retVal = t1 - t2 + t3 - t4 + t5;
          retVal = (if retVal < 1.0 then 1.0 else retVal);
          retVal = retVal * 1000.0
      in retVal)"

definition ivlsu_calculate_vs :: "real \<Rightarrow> real" where
  "ivlsu_calculate_vs vp0 =
     (let vp = vp0 * 0.001;
          t1 = (vp * 1.2344);
          t2 = ((vp * vp) * 0.7949);
          t3 = ((vp * vp * vp) * 0.1238);
          t4 = ((vp * vp * vp * vp) * 0.0064);
          retVal = 0.7858 - t1 + t2 - t3 + t4;
          retVal = retVal * 1000.0
      in retVal)"

subsection \<open>The query (ivlsu.c, lines 151 to 268)\<close>

text \<open>
  The local variables of \<open>ivlsu_query\<close> that keep their value from one point of the batch
  to the next: \<open>point_u\<close> and \<open>point_v\<close>, which \<open>to_utm\<close> leaves alone when it fails,
  and the array \<open>surrounding_points\<close>. The others are assigned before they are read.
\<close>

record query_locals =
  point_u :: real
  point_v :: real
  surrounding_points :: "nat \<Rightarrow> ivlsu_properties_t"

text \<open>Lines 169 and 170.\<close>

definition delta_lon :: "ivlsu_configuration_t \<Rightarrow> real" where
  "delta_lon c = (top_right_corner_e c - bottom_left_corner_e c) / of_int (nx c - 1)"

definition delta_lat :: "ivlsu_configuration_t \<Rightarrow> real" where
  "delta_lat c = (top_right_corner_n c - bottom_left_corner_n c) / of_int (ny c - 1)"

text \<open>Lines 195 and 196: the rotation of the translated point.\<close>

definition point_x :: "ivlsu_globals \<Rightarrow> real \<Rightarrow> real \<Rightarrow> real" where
  "point_x g u v = ivlsu_cos_rotation_angle g * u - ivlsu_sin_rotation_angle g * v"

definition point_y :: "ivlsu_globals \<Rightarrow> real \<Rightarrow> real \<Rightarrow> real" where
  "point_y g u v = ivlsu_sin_rotation_angle g * u + ivlsu_cos_rotation_angle g * v"

text \<open>
  Lines 203 to 205: the lattice indices of the translated point \<open>(u, v)\<close>. When the two
  corner coordinates of a delta are equal, the delta is zero or NaN in C and the quotient
  infinite or NaN: its conversion to \<open>int\<close> is undefined. (With \<open>n = 1\<close> and distinct
  corner coordinates the delta is infinite and the quotient zero in C, and zero in HOL.)
\<close>

definition load_y_coord :: "ivlsu_globals \<Rightarrow> ivlsu_configuration_t \<Rightarrow> real \<Rightarrow> real \<Rightarrow> int option" where
  "load_y_coord g c u v =
     (if top_right_corner_n c - bottom_left_corner_n c = 0 then None
      else double_to_int (c_round (point_y g u v / delta_lat c)))"

definition load_x_coord :: "ivlsu_globals \<Rightarrow> ivlsu_configuration_t \<Rightarrow> real \<Rightarrow> real \<Rightarrow> int option" where
  "load_x_coord g c u v =
     (if top_right_corner_e c - bottom_left_corner_e c = 0 then None
      else double_to_int (c_round (point_x g u v / delta_lon c)))"

definition load_z_coord :: "ivlsu_point_t \<Rightarrow> int option" where
  "load_z_coord p = double_to_int (depth p / 1000)"

definition load_coords ::
  "ivlsu_globals \<Rightarrow> ivlsu_configuration_t \<Rightarrow> real \<Rightarrow> real \<Rightarrow> ivlsu_point_t \<Rightarrow> (int \<times> int \<times> int) option" where
  "load_coords g c u v p =
     do {
       ly \<leftarrow> load_y_coord g c u v;
       lx \<leftarrow> load_x_coord g c u v;
       lz \<leftarrow> load_z_coord p;
       Some (lx, ly, lz)
     }"

text \<open>Line 210: the boundary check.\<close>

definition outside_boundaries :: "ivlsu_configuration_t \<Rightarrow> ivlsu_point_t \<Rightarrow> int \<Rightarrow> int \<Rightarrow> int \<Rightarrow> bool" where
  "outside_boundaries c p lx ly lz \<longleftrightarrow>
     depth p > model_depth c \<or> lx > nx c - 1 \<or> ly > ny c - 1 \<or> lx < 0 \<or> ly < 0 \<or> lz < 0"

text \<open>Lines 218 to 226: the intervals and the percentages.\<close>

definition x_interval :: "ivlsu_globals \<Rightarrow> ivlsu_configuration_t \<Rightarrow> real" where
  "x_interval g c =
     (if nx c > 1 then ivlsu_total_width_m g / of_int (nx c - 1) else ivlsu_total_width_m g)"

definition y_interval :: "ivlsu_globals \<Rightarrow> ivlsu_configuration_t \<Rightarrow> real" where
  "y_interval g c =
     (if ny c > 1 then ivlsu_total_height_m g / of_int (ny c - 1) else ivlsu_total_height_m g)"

definition x_percent :: "ivlsu_globals \<Rightarrow> ivlsu_configuration_t \<Rightarrow> real \<Rightarrow> real" where
  "x_percent g c u = c_fmod u (x_interval g c) / x_interval g c"

definition y_percent :: "ivlsu_globals \<Rightarrow> ivlsu_configuration_t \<Rightarrow> real \<Rightarrow> real" where
  "y_percent g c v = c_fmod v (y_interval g c) / y_interval g c"

definition z_percent :: "ivlsu_configuration_t \<Rightarrow> ivlsu_point_t \<Rightarrow> real" where
  "z_percent c p = c_fmod (depth p) (depth_interval c) / depth_interval c"

text \<open>
  Successive calls \<open>ivlsu_read_properties(x, y, z, &(surrounding_points[k]))\<close>, for the
  index triples of a list and \<open>k\<close> counting up. The first component of the result lists
  the index triples the accessor was called with, in order; a call that is undefined
  ends the run.
\<close>

type_synonym lattice_index = "int \<times> int \<times> int"

fun read_surrounding ::
  "ivlsu_globals \<Rightarrow> lattice_index list \<Rightarrow> nat \<Rightarrow> (nat \<Rightarrow> ivlsu_properties_t)
   \<Rightarrow> lattice_index list \<times> (nat \<Rightarrow> ivlsu_properties_t) option" where
  "read_surrounding g [] k sp = ([], Some sp)"
| "read_surrounding g ((x, y, z) # rest) k sp =
     (case ivlsu_read_properties g x y z (sp k) of
        None \<Rightarrow> ([(x, y, z)], None)
      | Some d \<Rightarrow>
          (case read_surrounding g rest (Suc k) (sp(k := d)) of
             (calls, r) \<Rightarrow> ((x, y, z) # calls, r)))"

text \<open>The four index triples of lines 236 to 239 (and 248 to 251), in the order read.\<close>

definition plane_indices :: "int \<Rightarrow> int \<Rightarrow> int \<Rightarrow> lattice_index list" where
  "plane_indices lx ly lz = [(lx, ly, lz), (lx + 1, ly, lz), (lx, ly + 1, lz), (lx + 1, ly + 1, lz)]"

text \<open>
  Lines 230 to 261: the reads and the interpolation into \<open>data[i]\<close>, which is \<open>d\<close>. The
  result is the list of the accessor's calls, and the locals and \<open>data[i]\<close> afterwards.
\<close>

definition gather ::
  "ivlsu_globals \<Rightarrow> ivlsu_configuration_t \<Rightarrow> query_locals \<Rightarrow> int \<Rightarrow> int \<Rightarrow> int
   \<Rightarrow> real \<Rightarrow> real \<Rightarrow> real \<Rightarrow> ivlsu_properties_t
   \<Rightarrow> lattice_index list \<times> (query_locals \<times> ivlsu_properties_t) option" where
  "gather g c st lx ly lz xp yp zp d =
     (if lz = 0 \<and> zp = 0 then
        (let lz = 0
         in if interpolation c \<noteq> 0 then
              (case read_surrounding g (plane_indices lx ly lz) 0 (surrounding_points st) of
                 (calls, None) \<Rightarrow> (calls, None)
               | (calls, Some sp) \<Rightarrow>
                   (calls, Some (st \<lparr> surrounding_points := sp \<rparr>,
                                 ivlsu_bilinear_interpolation xp yp sp d)))
            else
              ([(lx, ly, lz)], map_option (Pair st) (ivlsu_read_properties g lx ly lz d)))
      else
        (if interpolation c \<noteq> 0 then
           (case read_surrounding g (plane_indices lx ly lz @ plane_indices lx ly (lz - 1)) 0
                   (surrounding_points st) of
              (calls, None) \<Rightarrow> (calls, None)
            | (calls, Some sp) \<Rightarrow>
                (calls, Some (st \<lparr> surrounding_points := sp \<rparr>,
                              ivlsu_trilinear_interpolation xp yp zp sp d)))
         else
           ([(lx, ly, lz)], map_option (Pair st) (ivlsu_read_properties g lx ly lz d))))"

text \<open>Lines 263 and 264.\<close>

definition derive_rho_vs :: "ivlsu_properties_t \<Rightarrow> ivlsu_properties_t" where
  "derive_rho_vs d =
     (let d = d \<lparr> rho := ivlsu_calculate_density_exact (vp d) \<rparr>
      in d \<lparr> vs := ivlsu_calculate_vs (vp d) \<rparr>)"

text \<open>
  The body of the loop for one point \<open>p = points[i]\<close>, with \<open>d\<close> the content of
  \<open>data[i]\<close> before. The return value of \<open>to_utm\<close> is discarded (line 185).
\<close>

definition ivlsu_query_point ::
  "int \<Rightarrow> ivlsu_globals \<Rightarrow> ivlsu_configuration_t \<Rightarrow> query_locals \<Rightarrow> ivlsu_point_t
   \<Rightarrow> ivlsu_properties_t \<Rightarrow> lattice_index list \<times> (query_locals \<times> ivlsu_properties_t) option" where
  "ivlsu_query_point code_error g c st p d =
     (if depth p < 0 then
        ([], Some (st, d \<lparr> vp := - 1, vs := - 1, rho := - 1, qp := - 1, qs := - 1 \<rparr>))
      else
        (case to_utm code_error g (longitude p) (latitude p) (point_u st) (point_v st) of
           None \<Rightarrow> ([], None)
         | Some (rc, u, v) \<Rightarrow>
             (let st = st \<lparr> point_u := u - bottom_left_corner_e c,
                             point_v := v - bottom_left_corner_n c \<rparr>
              in case load_coords g c (point_u st) (point_v st) p of
                   None \<Rightarrow> ([], None)
                 | Some (lx, ly, lz) \<Rightarrow>
                     if outside_boundaries c p lx ly lz then
                       ([], Some (st, d \<lparr> vp := - 1, vs := - 1, rho := - 1 \<rparr>))
                     else
                       (case gather g c st lx ly lz (x_percent g c (point_u st))
                               (y_percent g c (point_v st)) (z_percent c p) d of
                          (calls, None) \<Rightarrow> (calls, None)
                        | (calls, Some (st', d')) \<Rightarrow> (calls, Some (st', derive_rho_vs d'))))))"

text \<open>
  The loop of line 172 from index \<open>i\<close> on. \<open>points\<close> and \<open>data\<close> are the caller's arrays;
  an index beyond either is a read or write outside the array.
\<close>

function ivlsu_query_loop ::
  "int \<Rightarrow> ivlsu_globals \<Rightarrow> ivlsu_configuration_t \<Rightarrow> ivlsu_point_t list \<Rightarrow> int \<Rightarrow> nat
   \<Rightarrow> query_locals \<Rightarrow> ivlsu_properties_t list \<Rightarrow> ivlsu_properties_t list option" where
  "ivlsu_query_loop code_error g c points numpoints i st data =
     (if int i < numpoints then
        (if i < length points \<and> i < length data then
           (case snd (ivlsu_query_point code_error g c st (points ! i) (data ! i)) of
              None \<Rightarrow> None
            | Some (st', d') \<Rightarrow>
                ivlsu_query_loop code_error g c points numpoints (i + 1) st' (data[i := d']))
         else None)
      else Some data)"
  by pat_completeness auto
termination
  by (relation "measure (\<lambda>(code_error, g, c, points, numpoints, i, st, data). nat (numpoints - int i))")
     auto

declare ivlsu_query_loop.simps [simp del]

text \<open>
  \<open>ivlsu_query\<close>: \<open>sp0\<close> is the content of the uninitialised \<open>surrounding_points\<close> at entry.
  The result is the return value and the array \<open>data\<close> afterwards.
\<close>

definition ivlsu_query ::
  "int \<Rightarrow> ivlsu_globals \<Rightarrow> (nat \<Rightarrow> ivlsu_properties_t) \<Rightarrow> ivlsu_point_t list
   \<Rightarrow> ivlsu_properties_t list \<Rightarrow> int \<Rightarrow> (int \<times> ivlsu_properties_t list) option" where
  "ivlsu_query code_error g sp0 points data numpoints =
     (case ivlsu_configuration g of
        None \<Rightarrow> None
      | Some c \<Rightarrow>
          map_option (Pair SUCCESS)
            (ivlsu_query_loop code_error g c points numpoints 0
               \<lparr> point_u = 0, point_v = 0, surrounding_points = sp0 \<rparr> data))"

subsection \<open>Initialisation (ivlsu.c, lines 69 to 141, 430 to 502, 574 to 605)\<close>

text \<open>
  What initialisation finds outside the program.
  \<^item> \<open>config_file\<close>: \<open>None\<close> when \<open>fopen\<close> of the configuration file fails; otherwise the
    effect of the parsing loop (lines 443 to 487) on the configuration structure. The
    lexical work of \<open>fgets\<close>, \<open>sscanf\<close>, \<open>atoi\<close> and \<open>atof\<close> is not modelled.
  \<^item> \<open>vp_dat\<close>: \<open>None\<close> when \<open>access\<close> of \<open>vp.dat\<close> fails, otherwise the floats of the file.
  \<^item> \<open>malloc_vp\<close>: whether \<open>malloc\<close> of the model's memory gives a block.
  \<^item> \<open>proj_create_crs_to_crs\<close>: the transformation object that Proj creates for a zone,
    \<open>None\<close> for \<open>NULL\<close>.
\<close>

record ivlsu_env =
  config_file :: "(ivlsu_configuration_t \<Rightarrow> ivlsu_configuration_t) option"
  vp_dat :: "real list option"
  malloc_vp :: bool
  proj_create_crs_to_crs :: "int \<Rightarrow> PJ option"

text \<open>What \<open>calloc\<close> gives for the configuration and for the model structure.\<close>

definition calloc_configuration :: ivlsu_configuration_t where
  "calloc_configuration =
     \<lparr> utm_zone = 0, model_dir = [], nx = 0, ny = 0, nz = 0, model_depth = 0,
       top_left_corner_e = 0, top_left_corner_n = 0,
       top_right_corner_e = 0, top_right_corner_n = 0,
       bottom_left_corner_e = 0, bottom_left_corner_n = 0,
       bottom_right_corner_e = 0, bottom_right_corner_n = 0,
       depth_interval = 0, p5 = 0, interpolation = 0 \<rparr>"

definition calloc_model :: ivlsu_model_t where
  "calloc_model = \<lparr> vp_ptr = VpNull, vp_status = 0 \<rparr>"

text \<open>The return value and the structure that \<open>config\<close> points to afterwards.\<close>

definition ivlsu_read_configuration ::
  "(ivlsu_configuration_t \<Rightarrow> ivlsu_configuration_t) option \<Rightarrow> ivlsu_configuration_t
   \<Rightarrow> int \<times> ivlsu_configuration_t" where
  "ivlsu_read_configuration fp config =
     (case fp of
        None \<Rightarrow> (FAIL, config)
      | Some lines \<Rightarrow>
          (let config = lines config
           in if utm_zone config = 0 \<or> nx config = 0 \<or> ny config = 0 \<or> nz config = 0
                 \<or> model_dir config = []
                 \<or> top_left_corner_e config = 0 \<or> top_left_corner_n config = 0
                 \<or> top_right_corner_e config = 0 \<or> top_right_corner_n config = 0
                 \<or> bottom_left_corner_e config = 0 \<or> bottom_left_corner_n config = 0
                 \<or> bottom_right_corner_e config = 0 \<or> bottom_right_corner_n config = 0
                 \<or> model_depth config = 0 \<or> depth_interval config = 0
              then (FAIL, config)
              else (SUCCESS, config)))"

text \<open>
  \<open>sprintf\<close> into an array of \<open>n\<close> characters writes the string and its terminating
  zero: it stays within the array when the string is shorter than \<open>n\<close>, and is
  undefined otherwise.
\<close>

definition fits :: "string \<Rightarrow> nat \<Rightarrow> bool" where
  "fits str n \<longleftrightarrow> length str < n"

text \<open>
  The return value and the model structure afterwards, \<open>None\<close> when the name of the
  file overruns \<open>current_file[128]\<close>. \<open>data_directory\<close> is the global
  \<open>ivlsu_data_directory\<close>. \<open>fread\<close> fills the block with at most \<open>nx * ny * nz\<close>
  floats of the file.
\<close>

definition ivlsu_try_reading_model ::
  "ivlsu_env \<Rightarrow> string \<Rightarrow> ivlsu_configuration_t \<Rightarrow> ivlsu_model_t
   \<Rightarrow> (int \<times> ivlsu_model_t) option" where
  "ivlsu_try_reading_model env data_directory c model =
     (let current_file = data_directory @ ''/vp.dat''
      in if \<not> fits current_file 128 then None
         else
           (case vp_dat env of
              None \<Rightarrow> Some (FAIL, model)
            | Some floats \<Rightarrow>
                if malloc_vp env then
                  Some (2, model \<lparr> vp_ptr := VpMemory (take (nat (nx c * ny c * nz c)) floats),
                                   vp_status := 2 \<rparr>)
                else
                  Some (SUCCESS, model \<lparr> vp_ptr := VpStream floats, vp_status := 1 \<rparr>)))"

text \<open>
  \<open>atan(east / north)\<close> of line 116. With \<open>north = 0\<close> the quotient of C is infinite
  and its arc tangent a right angle, of the sign of \<open>east\<close>; with both zero the quotient
  and the angle are NaN, which no real number stands for: \<open>None\<close>.
\<close>

definition atan_quotient :: "real \<Rightarrow> real \<Rightarrow> real option" where
  "atan_quotient east north =
     (if north \<noteq> 0 then Some (arctan (east / north))
      else if 0 < east then Some (pi / 2)
      else if east < 0 then Some (- (pi / 2))
      else None)"

text \<open>
  \<open>ivlsu_init\<close>: the return value and the globals afterwards. \<open>code_error\<close> is the value of
  the macro \<open>UCVM_CODE_ERROR\<close>. The result is \<open>None\<close> when a file name overruns its
  array (\<open>configbuf[512]\<close> at line 83, \<open>ivlsu_data_directory[128]\<close> at line 93,
  \<open>current_file[128]\<close> at line 582), which is undefined, and when the rotation angle is
  NaN, which the reals cannot hold. \<open>calloc\<close> is taken to give memory.
\<close>

definition ivlsu_init ::
  "int \<Rightarrow> ivlsu_env \<Rightarrow> string \<Rightarrow> string \<Rightarrow> ivlsu_globals
   \<Rightarrow> (int \<times> ivlsu_globals) option" where
  "ivlsu_init code_error env dir label g =
     (let g = g \<lparr> ivlsu_configuration := Some calloc_configuration,
                   ivlsu_velocity_model := Some calloc_model,
                   ivlsu_config_string := Some [],
                   ivlsu_config_sz := 0 \<rparr>;
          configbuf = dir @ ''/model/'' @ label @ ''/data/config''
      in if \<not> fits configbuf 512 then None
         else
           (let (rc, c) = ivlsu_read_configuration (config_file env) calloc_configuration;
                g = g \<lparr> ivlsu_configuration := Some c \<rparr>
            in if rc \<noteq> SUCCESS then Some (FAIL, g)
               else
                 (let data_directory = dir @ ''/model/'' @ label @ ''/data/'' @ model_dir c
                  in if \<not> fits data_directory 128 then None
                     else
                       (let g = g \<lparr> ivlsu_data_directory := data_directory \<rparr>
                        in case ivlsu_try_reading_model env (ivlsu_data_directory g) c calloc_model of
                             None \<Rightarrow> None
                           | Some (tempVal, m) \<Rightarrow>
                               (let g = g \<lparr> ivlsu_velocity_model := Some m \<rparr>
                                in if tempVal \<noteq> SUCCESS \<and> tempVal = FAIL then Some (FAIL, g)
                                   else
                                     (let north_height_m = top_left_corner_n c - bottom_left_corner_n c;
                                          east_width_m = top_left_corner_e c - bottom_left_corner_e c
                                      in case atan_quotient east_width_m north_height_m of
                                           None \<Rightarrow> None
                                         | Some rotation_angle \<Rightarrow>
                                             (let g = g \<lparr> ivlsu_cos_rotation_angle := cos rotation_angle,
                                                     ivlsu_sin_rotation_angle := sin rotation_angle,
                                                     ivlsu_total_height_m :=
                                                       sqrt ((top_left_corner_n c - bottom_left_corner_n c) ^ 2
                                                             + (top_left_corner_e c - bottom_left_corner_e c) ^ 2),
                                                     ivlsu_total_width_m :=
                                                       sqrt ((top_right_corner_n c - top_left_corner_n c) ^ 2
                                                             + (top_right_corner_e c - top_left_corner_e c) ^ 2),
                                                     ivlsu_geo2utm := proj_create_crs_to_crs env (utm_zone c) \<rparr>
                                              in if ivlsu_geo2utm g = None then Some (code_error, g)
                                                 else
                                                   Some (SUCCESS,
                                                         g \<lparr> ivlsu_config_string :=
                                                               Some (''config = '' @ configbuf @ [CHR 0x0A]),
                                                             ivlsu_config_sz := 1,
                                                             ivlsu_is_initialized := 1 \<rparr>))))))))"

text \<open>The globals when the library is loaded.\<close>

definition initial_globals :: ivlsu_globals where
  "initial_globals =
     \<lparr> ivlsu_is_initialized = 0, ivlsu_configuration = None, ivlsu_velocity_model = None,
       ivlsu_geo2utm = None, ivlsu_data_directory = [], ivlsu_config_string = None,
       ivlsu_config_sz = 0, ivlsu_cos_rotation_angle = 0, ivlsu_sin_rotation_angle = 0,
       ivlsu_total_height_m = 0, ivlsu_total_width_m = 0 \<rparr>"

subsection \<open>Notions of the specification\<close>

text \<open>The property tuple with every field at the sentinel.\<close>

definition sentinel :: ivlsu_properties_t where
  "sentinel = \<lparr> vp = - 1, vs = - 1, rho = - 1, qp = - 1, qs = - 1 \<rparr>"

text \<open>A lattice index triple within the grid of the configuration.\<close>

definition in_lattice :: "ivlsu_configuration_t \<Rightarrow> lattice_index \<Rightarrow> bool" where
  "in_lattice c t \<longleftrightarrow>
     (case t of (x, y, z) \<Rightarrow>
        0 \<le> x \<and> x \<le> nx c - 1 \<and> 0 \<le> y \<and> y \<le> ny c - 1 \<and> 0 \<le> z \<and> z \<le> nz c - 1)"


text \<open>
  The Nafe-Drake polynomial as the specification writes it, in km/s, and its derivative.
\<close>

definition nafe_drake :: "real \<Rightarrow> real" where
  "nafe_drake v = 1.6612 * v - 0.4721 * v ^ 2 + 0.0671 * v ^ 3 - 0.0043 * v ^ 4 + 0.000106 * v ^ 5"

definition nafe_drake_slope :: "real \<Rightarrow> real" where
  "nafe_drake_slope v = 1.6612 - 0.9442 * v + 0.2013 * v ^ 2 - 0.0172 * v ^ 3 + 0.00053 * v ^ 4"

subsection \<open>A small model, for evaluation\<close>

text \<open>
  The grid of the specification's end-to-end scenario: two points along each axis, the
  lattice 100 to 800 in memory, an axis-aligned square with corners at 100 and 200
  metres, the layers 1000 metres apart. The geometry is what \<open>ivlsu_init\<close> computes
  from these corners: no rotation, a width and a height of 100.
\<close>

definition example_configuration :: ivlsu_configuration_t where
  "example_configuration =
     \<lparr> utm_zone = 11, model_dir = ''ivlsu'', nx = 2, ny = 2, nz = 2, model_depth = 1000,
       top_left_corner_e = 100, top_left_corner_n = 200,
       top_right_corner_e = 200, top_right_corner_n = 200,
       bottom_left_corner_e = 100, bottom_left_corner_n = 100,
       bottom_right_corner_e = 200, bottom_right_corner_n = 100,
       depth_interval = 1000, p5 = 0, interpolation = 1 \<rparr>"

text \<open>
  A transformation with ten metres to the degree from the corner at 100 metres, which
  reports the error 1 for a latitude beyond the poles.
\<close>

definition example_pj :: PJ where
  "example_pj lat lon = (if - 90 \<le> lat \<and> lat \<le> 90 then (0, 100 + 10 * lon, 100 + 10 * lat)
      else (1, 0, 0))"

definition example_lattice :: "real list" where
  "example_lattice = [100, 200, 300, 400, 500, 600, 700, 800]"

definition example_globals :: ivlsu_globals where
  "example_globals =
     \<lparr> ivlsu_is_initialized = 1,
       ivlsu_configuration = Some example_configuration,
       ivlsu_velocity_model = Some \<lparr> vp_ptr = VpMemory example_lattice, vp_status = 2 \<rparr>,
       ivlsu_geo2utm = Some example_pj,
       ivlsu_data_directory = ''/model/ivlsu/data/ivlsu'',
       ivlsu_config_string = Some (''config = /model/ivlsu/data/config'' @ [CHR 0x0A]),
       ivlsu_config_sz = 1,
       ivlsu_cos_rotation_angle = 1, ivlsu_sin_rotation_angle = 0,
       ivlsu_total_height_m = 100, ivlsu_total_width_m = 100 \<rparr>"

text \<open>The environment in which \<open>ivlsu_init\<close> arrives at these globals.\<close>

definition example_env :: ivlsu_env where
  "example_env =
     \<lparr> config_file = Some (\<lambda>config. example_configuration),
       vp_dat = Some example_lattice, malloc_vp = True,
       proj_create_crs_to_crs = (\<lambda>zone. Some example_pj) \<rparr>"

text \<open>The same model with the interpolation switched off.\<close>

definition example_globals_raw :: ivlsu_globals where
  "example_globals_raw =
     example_globals \<lparr> ivlsu_configuration := Some (example_configuration \<lparr> interpolation := 0 \<rparr>) \<rparr>"

text \<open>Output slots and a stack array as \<open>calloc\<close> or a zeroed stack would give them.\<close>

definition example_sp :: "nat \<Rightarrow> ivlsu_properties_t" where
  "example_sp k = calloc_properties"

definition example_locals :: query_locals where
  "example_locals = \<lparr> point_u = 0, point_v = 0, surrounding_points = example_sp \<rparr>"

text \<open>An environment without a configuration file.\<close>

definition example_env_no_config :: ivlsu_env where
  "example_env_no_config =
     \<lparr> config_file = None, vp_dat = None, malloc_vp = True,
       proj_create_crs_to_crs = (\<lambda>zone. None) \<rparr>"

text \<open>The globals after an initialisation that finds no configuration file.\<close>

definition example_globals_no_config :: ivlsu_globals where
  "example_globals_no_config =
     initial_globals \<lparr> ivlsu_configuration := Some calloc_configuration,
                       ivlsu_velocity_model := Some calloc_model,
                       ivlsu_config_string := Some [] \<rparr>"

text \<open>
  An environment with the configuration and the file of the small model, in which
  \<open>malloc\<close> of the model's memory fails, and the globals after the initialisation in
  it: the small model with the stream in place of the memory.
\<close>

definition example_globals_stream :: ivlsu_globals where
  "example_globals_stream =
     example_globals
       \<lparr> ivlsu_velocity_model := Some \<lparr> vp_ptr = VpStream example_lattice, vp_status = 1 \<rparr> \<rparr>"

definition example_env_no_memory :: ivlsu_env where
  "example_env_no_memory =
     \<lparr> config_file = Some (\<lambda>config. example_configuration),
       vp_dat = Some example_lattice, malloc_vp = False,
       proj_create_crs_to_crs = (\<lambda>zone. Some example_pj) \<rparr>"

section \<open>Theorems\<close>

subsection \<open>The loop of the query\<close>

lemma query_loop_unfold:
  "ivlsu_query_loop E g c points n i st data = Some out \<Longrightarrow>
     (\<not> int i < n \<and> out = data)
     \<or> (int i < n \<and> i < length points \<and> i < length data
        \<and> (\<exists>st' d'. snd (ivlsu_query_point E g c st (points ! i) (data ! i)) = Some (st', d')
               \<and> ivlsu_query_loop E g c points n (i + 1) st' (data[i := d']) = Some out))"
  by (subst (asm) ivlsu_query_loop.simps) (auto split: if_splits option.splits)

lemma query_loop_result:
  "ivlsu_query_loop E g c points n i st data = Some out \<Longrightarrow>
     length out = length data
     \<and> (\<forall>j. j < i \<longrightarrow> out ! j = data ! j)
     \<and> (\<forall>j. i \<le> j \<and> int j < n \<longrightarrow>
           (\<exists>s s'. snd (ivlsu_query_point E g c s (points ! j) (data ! j)) = Some (s', out ! j)))"
proof (induction E g c points n i st data arbitrary: out rule: ivlsu_query_loop.induct)
  case (1 E g c points n i st data)
  show ?case
  proof (cases "int i < n")
    case False
    with query_loop_unfold [OF "1.prems"] have "out = data" by simp
    with False show ?thesis by auto
  next
    case run: True
    with query_loop_unfold [OF "1.prems"] have inside: "i < length points \<and> i < length data"
      by simp
    from run query_loop_unfold [OF "1.prems"] obtain st' d' where
      step: "snd (ivlsu_query_point E g c st (points ! i) (data ! i)) = Some (st', d')"
      and rest: "ivlsu_query_loop E g c points n (i + 1) st' (data[i := d']) = Some out"
      by auto
    from "1.IH" [OF run inside step refl rest]
    have len: "length out = length data"
      and before: "\<forall>j. j < i + 1 \<longrightarrow> out ! j = (data[i := d']) ! j"
      and after: "\<forall>j. i + 1 \<le> j \<and> int j < n \<longrightarrow>
           (\<exists>s s'. snd (ivlsu_query_point E g c s (points ! j) ((data[i := d']) ! j)) = Some (s', out ! j))"
      by simp_all
    from before inside have at_i: "out ! i = d'" by simp
    have "\<forall>j. j < i \<longrightarrow> out ! j = data ! j"
      using before by (metis less_SucI Suc_eq_plus1 nth_list_update_neq nat_neq_iff)
    moreover have "\<forall>j. i \<le> j \<and> int j < n \<longrightarrow>
           (\<exists>s s'. snd (ivlsu_query_point E g c s (points ! j) (data ! j)) = Some (s', out ! j))"
    proof (intro allI impI)
      fix j assume j: "i \<le> j \<and> int j < n"
      show "\<exists>s s'. snd (ivlsu_query_point E g c s (points ! j) (data ! j)) = Some (s', out ! j)"
      proof (cases "j = i")
        case True
        with step at_i show ?thesis by blast
      next
        case False
        with j have "i + 1 \<le> j \<and> int j < n" by simp
        with after have "\<exists>s s'. snd (ivlsu_query_point E g c s (points ! j) ((data[i := d']) ! j)) = Some (s', out ! j)"
          by blast
        with False show ?thesis by simp
      qed
    qed
    ultimately show ?thesis using len by blast
  qed
qed

lemma query_result:
  assumes "ivlsu_query E g sp0 points data n = Some (rc, out)" and "int i < n"
  shows "rc = SUCCESS \<and> (\<exists>c s s'. ivlsu_configuration g = Some c \<and> snd (ivlsu_query_point E g c s (points ! i) (data ! i)) = Some (s', out ! i))"
  using assms query_loop_result [of E g _ points n 0 _ data out]
  by (auto simp: ivlsu_query_def split: option.splits)

subsection \<open>Density in exact arithmetic\<close>

lemma density_nafe_drake:
  "ivlsu_calculate_density_exact x = 1000 * max 1 (nafe_drake (x * 0.001))"
  by (simp add: ivlsu_calculate_density_exact_def nafe_drake_def Let_def max_def
      power2_eq_square power3_eq_cube power4_eq_xxxx power_numeral_odd algebra_simps)

lemma nafe_drake_deriv: "(nafe_drake has_real_derivative nafe_drake_slope v) (at v)"
  unfolding nafe_drake_def [abs_def] nafe_drake_slope_def
  by (auto intro!: derivative_eq_intros simp: algebra_simps)

lemma nafe_drake_slope_squares:
  "nafe_drake_slope v = (53 / 100000) * (v ^ 2 - (860 / 53) * v + 205 / 4) ^ 2
                      + (15747 / 2120000) * (v - 22154 / 5249) ^ 2 + 229789703 / 1679680000"
  unfolding nafe_drake_slope_def
  by (simp add: power2_eq_square power3_eq_cube power4_eq_xxxx algebra_simps)

lemma nafe_drake_slope_nonneg: "0 \<le> nafe_drake_slope v"
  unfolding nafe_drake_slope_squares
  by (intro add_nonneg_nonneg mult_nonneg_nonneg zero_le_power2) simp_all

lemma nafe_drake_mono: "a \<le> b \<Longrightarrow> nafe_drake a \<le> nafe_drake b"
  by (rule DERIV_nonneg_imp_nondecreasing [of a b nafe_drake])
     (auto intro: nafe_drake_deriv nafe_drake_slope_nonneg)

subsection \<open>Rounding\<close>

lemma powi2_succ: "(2::real) powi (k + 1) = 2 * 2 powi k"
  by (simp add: power_int_add)

lemma powi2_pred: "(2::real) powi (k - 1) = 2 powi k / 2"
  by (simp add: power_int_diff)

lemma ilog2_bounds: "0 < x \<Longrightarrow> 2 powi ilog2 x \<le> x \<and> x < 2 powi (ilog2 x + 1)"
proof (induction x rule: ilog2.induct)
  case (1 x)
  show ?case
  proof (cases "2 \<le> x")
    case True
    then have eq: "ilog2 x = ilog2 (x / 2) + 1" by (subst ilog2.simps) simp
    from True "1.prems" "1.IH"(1)
    have "2 powi ilog2 (x / 2) \<le> x / 2 \<and> x / 2 < 2 powi (ilog2 (x / 2) + 1)"
      by simp
    then show ?thesis
      unfolding eq powi2_succ [of "ilog2 (x / 2) + 1"] powi2_succ [of "ilog2 (x / 2)"]
      by linarith
  next
    case False
    show ?thesis
    proof (cases "x < 1")
      case True
      with False "1.prems" have eq: "ilog2 x = ilog2 (2 * x) - 1" by (subst ilog2.simps) simp
      from True False "1.prems" "1.IH"(2)
      have "2 powi ilog2 (2 * x) \<le> 2 * x \<and> 2 * x < 2 powi (ilog2 (2 * x) + 1)"
        by simp
      moreover have "ilog2 (2 * x) - 1 + 1 = ilog2 (2 * x)" by simp
      ultimately show ?thesis
        unfolding eq powi2_pred [of "ilog2 (2 * x)"] powi2_succ [of "ilog2 (2 * x)"]
        by (simp add: powi2_succ)
    next
      case one: False
      with False have "ilog2 x = 0" by (subst ilog2.simps) simp
      with one False show ?thesis by simp
    qed
  qed
qed

lemma ilog2_ge: "2 powi k \<le> x \<Longrightarrow> k \<le> ilog2 x"
proof (rule ccontr)
  assume le: "2 powi k \<le> x" and "\<not> k \<le> ilog2 x"
  then have "ilog2 x + 1 \<le> k" by simp
  then have "(2::real) powi (ilog2 x + 1) \<le> 2 powi k" by (intro power_int_increasing) simp_all
  moreover have "0 < x" using le by (rule less_le_trans [rotated]) simp
  ultimately show False using ilog2_bounds [of x] le by linarith
qed

lemma round_half_even_near: "\<bar>of_int (round_half_even q) - q\<bar> \<le> 1 / 2"
  unfolding round_half_even_def Let_def by (auto; linarith)

lemma round_half_even_ge: "of_int n \<le> q \<Longrightarrow> n \<le> round_half_even q"
proof -
  assume "of_int n \<le> q"
  then have "n \<le> \<lfloor>q\<rfloor>" by (simp add: le_floor_iff)
  then show ?thesis unfolding round_half_even_def Let_def by auto
qed

lemma round_real_near:
  assumes "x \<noteq> 0" and "e = max (ilog2 \<bar>x\<bar> - 52) (- 1074)"
  shows "round_real x = of_int (round_half_even (x / 2 powi e)) * 2 powi e"
    and "\<bar>round_real x - x\<bar> \<le> 2 powi e / 2"
proof -
  let ?P = "(2::real) powi e"
  have P: "0 < ?P" by simp
  show eq: "round_real x = of_int (round_half_even (x / ?P)) * ?P"
    using assms by (simp add: round_real_def Let_def)
  have "\<bar>of_int (round_half_even (x / ?P)) - x / ?P\<bar> \<le> 1 / 2"
    by (rule round_half_even_near)
  then have "\<bar>of_int (round_half_even (x / ?P)) - x / ?P\<bar> * ?P \<le> 1 / 2 * ?P"
    using P by (intro mult_right_mono) simp_all
  moreover have "(of_int (round_half_even (x / ?P)) - x / ?P) * ?P
                 = of_int (round_half_even (x / ?P)) * ?P - x"
    by (simp add: left_diff_distrib)
  then have "\<bar>of_int (round_half_even (x / ?P)) - x / ?P\<bar> * ?P
                 = \<bar>of_int (round_half_even (x / ?P)) * ?P - x\<bar>"
    using abs_mult_pos [of ?P "of_int (round_half_even (x / ?P)) - x / ?P"] P by simp
  ultimately show "\<bar>round_real x - x\<bar> \<le> ?P / 2"
    unfolding eq by simp
qed

lemma round_real_error:
  assumes "\<bar>x\<bar> \<le> M" and "2 powi (- 1022) \<le> M"
  shows "\<bar>round_real x - x\<bar> \<le> M / 2 ^ 53"
proof (cases "x = 0")
  case True
  have "(0::real) < 2 powi (- 1022)" by simp
  with assms(2) have "0 \<le> M" by linarith
  with True show ?thesis by (simp add: round_real_def)
next
  case False
  define e where "e = max (ilog2 \<bar>x\<bar> - 52) (- 1074)"
  from round_real_near(2) [OF False e_def] have near: "\<bar>round_real x - x\<bar> \<le> 2 powi e / 2" .
  have "2 powi e / 2 \<le> M / 2 ^ 53"
  proof (cases "ilog2 \<bar>x\<bar> - 52 \<le> - 1074")
    case True
    then have "e = - 1074" by (simp add: e_def)
    moreover have "(2::real) powi (- 1074) / 2 = 2 powi (- 1022) / 2 ^ 53"
      by (simp add: power_int_minus_divide)
    ultimately show ?thesis using assms(2) by (simp add: divide_right_mono)
  next
    case normal: False
    then have e: "e = ilog2 \<bar>x\<bar> - 52" by (simp add: e_def)
    have "(2::real) powi (ilog2 \<bar>x\<bar> - 52) = 2 powi ilog2 \<bar>x\<bar> / 2 ^ 52"
      by (simp add: power_int_diff)
    then have "(2::real) powi e / 2 = 2 powi ilog2 \<bar>x\<bar> / 2 ^ 53" unfolding e by simp
    moreover from False ilog2_bounds [of "\<bar>x\<bar>"] have "2 powi ilog2 \<bar>x\<bar> \<le> \<bar>x\<bar>" by simp
    ultimately show ?thesis using assms(1) by (simp add: divide_right_mono)
  qed
  with near show ?thesis by linarith
qed

lemma round_real_ge:
  assumes m: "0 < m" "m < 2 ^ 53" and k: "- 1074 \<le> k" and le: "of_int m * 2 powi k \<le> x"
  shows "of_int m * 2 powi k \<le> round_real x"
proof -
  have pos: "0 < (of_int m :: real) * 2 powi k" using m(1) by simp
  with le have x: "0 < x" by linarith
  then have nz: "x \<noteq> 0" and ax: "\<bar>x\<bar> = x" by simp_all
  define e where "e = max (ilog2 \<bar>x\<bar> - 52) (- 1074)"
  let ?P = "(2::real) powi e"
  have P: "0 < ?P" by simp
  from round_real_near(1) [OF nz e_def]
  have eq: "round_real x = of_int (round_half_even (x / ?P)) * ?P" .
  show ?thesis
  proof (cases "e \<le> k")
    case True
    then have split: "(2::real) powi k = 2 ^ nat (k - e) * ?P"
      using power_int_add [of "2::real" "k - e" e] by (simp add: power_int_nonneg_exp)
    have "of_int (m * 2 ^ nat (k - e)) \<le> x / ?P"
      using le P unfolding split by (simp add: pos_le_divide_eq mult.assoc del: power_int_eq_0_iff)
    then have "m * 2 ^ nat (k - e) \<le> round_half_even (x / ?P)"
      by (rule round_half_even_ge)
    then have "(of_int (m * 2 ^ nat (k - e)) :: real) \<le> of_int (round_half_even (x / ?P))"
      by (simp only: of_int_le_iff)
    then have "of_int (m * 2 ^ nat (k - e)) * ?P \<le> of_int (round_half_even (x / ?P)) * ?P"
      using P by (intro mult_right_mono) simp_all
    then show ?thesis unfolding eq split by (simp add: mult.assoc)
  next
    case False
    then have ek: "k + 1 \<le> e" by simp
    with k have e: "e = ilog2 x - 52" by (simp add: e_def ax max_def split: if_splits)
    from ilog2_bounds [OF x] have "2 powi ilog2 x \<le> x" by simp
    moreover have "(2::real) powi ilog2 x = 2 ^ 52 * ?P"
      using power_int_add [of "2::real" 52 e] unfolding e by simp
    ultimately have "of_int (2 ^ 52) \<le> x / ?P"
      using P by (simp add: pos_le_divide_eq del: power_int_eq_0_iff)
    then have "2 ^ 52 \<le> round_half_even (x / ?P)"
      by (rule round_half_even_ge)
    then have "(of_int (2 ^ 52) :: real) \<le> of_int (round_half_even (x / ?P))"
      by (simp only: of_int_le_iff)
    then have big: "of_int (2 ^ 52) * ?P \<le> round_real x"
      unfolding eq using P by (intro mult_right_mono) simp_all
    have "(2::real) powi (k + 1) \<le> ?P" using ek by (intro power_int_increasing) simp_all
    then have step: "2 * (2::real) powi k \<le> ?P" by (simp add: powi2_succ)
    from m(2) have "(of_int m :: real) \<le> 2 ^ 53"
      by (metis of_int_le_iff less_imp_le of_int_numeral of_int_power)
    then have "of_int m * (2::real) powi k \<le> 2 ^ 53 * 2 powi k"
      by (intro mult_right_mono) simp_all
    moreover have "(2::real) ^ 53 * 2 powi k = 2 ^ 52 * (2 * 2 powi k)" by simp
    moreover have "(2::real) ^ 52 * (2 * 2 powi k) \<le> 2 ^ 52 * ?P"
      using step by (intro mult_left_mono) simp_all
    ultimately have "of_int m * (2::real) powi k \<le> 2 ^ 52 * ?P"
      by (simp only:)
    then have "of_int m * (2::real) powi k \<le> of_int (2 ^ 52) * ?P" by simp
    with big show ?thesis by linarith
  qed
qed

lemma round_double_ge:
  assumes "0 < m" "m < 2 ^ 53" "- 1074 \<le> k" "of_int m * 2 powi k \<le> x"
  shows "round_double x = PInf \<or> (\<exists>v. round_double x = Finite v \<and> of_int m * 2 powi k \<le> v)"
proof -
  from round_real_ge [OF assms] have ge: "of_int m * 2 powi k \<le> round_real x" .
  moreover from assms(1) have "0 < (of_int m :: real) * 2 powi k" by simp
  moreover have "(0::real) < 2 ^ 1024" by simp
  ultimately have "\<not> round_real x \<le> - (2 ^ 1024)" by linarith
  with ge show ?thesis by (simp add: round_double_def Let_def)
qed

lemma round_double_overflow: "2 ^ 1024 \<le> x \<Longrightarrow> round_double x = PInf"
proof -
  assume "2 ^ 1024 \<le> x"
  then have "of_int 1 * 2 powi 1024 \<le> x" by simp
  from round_real_ge [OF _ _ _ this] have "2 ^ 1024 \<le> round_real x" by simp
  then show ?thesis by (simp add: round_double_def Let_def)
qed

lemma round_double_finite:
  assumes "\<bar>x\<bar> \<le> M" and "2 powi (- 1022) \<le> M" and "M \<le> 2 ^ 1000"
  shows "round_double x = Finite (round_real x)" and "\<bar>round_real x - x\<bar> \<le> M / 2 ^ 53"
proof -
  show err: "\<bar>round_real x - x\<bar> \<le> M / 2 ^ 53"
    using assms(1,2) by (rule round_real_error)
  have "(0::real) < 2 powi (- 1022)" by simp
  with assms(2) have M0: "0 \<le> M" by linarith
  then have "M / 2 ^ 53 \<le> M" by (simp add: divide_le_eq)
  with err assms(1) have "\<bar>round_real x\<bar> \<le> 2 * M" by linarith
  moreover have "2 * M \<le> 2 * 2 ^ 1000" using assms(3) by simp
  moreover have "2 * (2::real) ^ 1000 < 2 ^ 1024" by simp
  ultimately have "\<bar>round_real x\<bar> < 2 ^ 1024" by linarith
  then have "\<not> 2 ^ 1024 \<le> round_real x" and "\<not> round_real x \<le> - (2 ^ 1024)"
    by linarith+
  then show "round_double x = Finite (round_real x)"
    by (simp add: round_double_def Let_def)
qed

lemma rounded_product:
  assumes a: "\<bar>a' - a\<bar> \<le> ea" and b: "\<bar>b' - b\<bar> \<le> eb" and A: "\<bar>a\<bar> \<le> A" and B: "\<bar>b\<bar> \<le> B"
    and d: "ea * (B + eb) + A * eb \<le> d" and M: "A * B + d \<le> M"
    and lo: "2 powi (- 1022) \<le> M" and hi: "M \<le> 2 ^ 1000" and E: "d + M / 2 ^ 53 \<le> E"
  shows "round_double (a' * b') = Finite (round_real (a' * b'))"
    and "\<bar>round_real (a' * b') - a * b\<bar> \<le> E"
    and "\<bar>a * b\<bar> \<le> A * B"
proof -
  from a b A B have nonneg: "0 \<le> ea" "0 \<le> eb" "0 \<le> A" "0 \<le> B" by linarith+
  from b B have b': "\<bar>b'\<bar> \<le> B + eb" by linarith
  have "a' * b' - a * b = (a' - a) * b' + a * (b' - b)" by (simp add: algebra_simps)
  then have "\<bar>a' * b' - a * b\<bar> \<le> \<bar>a' - a\<bar> * \<bar>b'\<bar> + \<bar>a\<bar> * \<bar>b' - b\<bar>"
    by (metis abs_mult abs_triangle_ineq)
  also have "\<dots> \<le> ea * (B + eb) + A * eb"
    using a b b' A nonneg by (intro add_mono mult_mono) simp_all
  finally have diff: "\<bar>a' * b' - a * b\<bar> \<le> d" using d by linarith
  show ab: "\<bar>a * b\<bar> \<le> A * B"
    unfolding abs_mult using A B nonneg by (intro mult_mono) simp_all
  with diff M have mag: "\<bar>a' * b'\<bar> \<le> M" by linarith
  from round_double_finite [OF mag lo hi]
  show "round_double (a' * b') = Finite (round_real (a' * b'))"
    and "\<bar>round_real (a' * b') - a * b\<bar> \<le> E"
    using diff E by linarith+
qed

lemma rounded_sum:
  assumes a: "\<bar>a' - a\<bar> \<le> ea" and b: "\<bar>b' - b\<bar> \<le> eb" and A: "\<bar>a\<bar> \<le> A" and B: "\<bar>b\<bar> \<le> B"
    and M: "A + B + ea + eb \<le> M"
    and lo: "2 powi (- 1022) \<le> M" and hi: "M \<le> 2 ^ 1000" and E: "ea + eb + M / 2 ^ 53 \<le> E"
  shows "round_double (a' + b') = Finite (round_real (a' + b'))"
    and "\<bar>round_real (a' + b') - (a + b)\<bar> \<le> E"
    and "\<bar>a + b\<bar> \<le> A + B"
proof -
  from a b A B M have mag: "\<bar>a' + b'\<bar> \<le> M" by linarith
  from a b have diff: "\<bar>(a' + b') - (a + b)\<bar> \<le> ea + eb" by linarith
  show "\<bar>a + b\<bar> \<le> A + B" using A B by linarith
  from round_double_finite [OF mag lo hi]
  show "round_double (a' + b') = Finite (round_real (a' + b'))"
    and "\<bar>round_real (a' + b') - (a + b)\<bar> \<le> E"
    using diff E by linarith+
qed

subsection \<open>Density in binary64\<close>

text \<open>The literals of \<open>ivlsu_calculate_density\<close> as doubles.\<close>

lemma density_constants:
  "round_double 0.001 = Finite (1152921504606847 / 2 ^ 60)"
  "round_double 1.6612 = Finite (1870344925246967 / 2 ^ 50)"
  "round_double 0.4721 = Finite (8504597536326445 / 2 ^ 54)"
  "round_double 0.0671 = Finite (4835064559944965 / 2 ^ 56)"
  "round_double 0.0043 = Finite (2478781234904721 / 2 ^ 59)"
  "round_double 0.000106 = Finite (3910709743626425 / 2 ^ 65)"
  "round_double 1.0 = Finite 1"
  "round_double 1000.0 = Finite 1000"
  by (simp_all add: round_double_def round_real_def round_half_even_def ilog2.simps Let_def)


lemma density_steps:
  "ivlsu_calculate_density vp0 =
     (let vp = double_mult vp0 (Finite (1152921504606847 / 2 ^ 60));
          t1 = double_mult vp (Finite (1870344925246967 / 2 ^ 50));
          t2 = double_mult (double_mult vp vp) (Finite (8504597536326445 / 2 ^ 54));
          t3 = double_mult (double_mult (double_mult vp vp) vp) (Finite (4835064559944965 / 2 ^ 56));
          t4 = double_mult (double_mult (double_mult (double_mult vp vp) vp) vp)
                 (Finite (2478781234904721 / 2 ^ 59));
          t5 = double_mult (double_mult (double_mult (double_mult (double_mult vp vp) vp) vp) vp)
                 (Finite (3910709743626425 / 2 ^ 65));
          retVal = double_add (double_sub (double_add (double_sub t1 t2) t3) t4) t5;
          retVal = (if double_less retVal (Finite 1) then Finite 1 else retVal)
      in double_mult retVal (Finite 1000))"
  unfolding ivlsu_calculate_density_def density_constants Let_def by (rule refl)

lemma clamp_scale:
  "double_mult (if double_less r (Finite 1) then Finite 1 else r) (Finite 1000) = NaN
   \<or> double_mult (if double_less r (Finite 1) then Finite 1 else r) (Finite 1000) = PInf
   \<or> (\<exists>v. double_mult (if double_less r (Finite 1) then Finite 1 else r) (Finite 1000) = Finite v
          \<and> 1000 \<le> v)"
proof (cases r)
  case (Finite v)
  show ?thesis
  proof (cases "v < 1")
    case True
    with Finite show ?thesis using density_constants(8) by simp
  next
    case False
    then have "of_int 125 * 2 powi 3 \<le> v * 1000" by simp
    from round_double_ge [OF _ _ _ this] False Finite show ?thesis by simp
  qed
next
  case PInf
  then show ?thesis by simp
next
  case NInf
  then show ?thesis using density_constants(8) by simp
next
  case NaN
  then show ?thesis by simp
qed

lemma density_at_least_1000:
  "ivlsu_calculate_density x = NaN \<or> ivlsu_calculate_density x = PInf
   \<or> (\<exists>v. ivlsu_calculate_density x = Finite v \<and> 1000 \<le> v)"
  unfolding density_steps Let_def by (rule clamp_scale)

lemma density_overflow:
  assumes "2 ^ 600 \<le> x"
  shows "ivlsu_calculate_density (Finite x) = NaN"
proof -
  have "of_int 1 * 2 powi 589 \<le> x * (1152921504606847 / 2 ^ 60)"
  proof -
    have "(2::real) ^ 589 = 2 ^ 600 * (1 / 2 ^ 11)" by simp
    also have "\<dots> \<le> x * (1152921504606847 / 2 ^ 60)"
      using assms by (intro mult_mono) simp_all
    finally show ?thesis by simp
  qed
  from round_double_ge [OF _ _ _ this]
  consider "round_double (x * (1152921504606847 / 2 ^ 60)) = PInf"
    | v where "round_double (x * (1152921504606847 / 2 ^ 60)) = Finite v" "2 ^ 589 \<le> v"
    by auto
  then show ?thesis
  proof cases
    case 1
    then show ?thesis
      by (simp add: density_steps Let_def double_sub_def)
  next
    case 2
    have "(2::real) ^ 1024 \<le> 2 ^ 589 * 2 ^ 589" by simp
    also have "\<dots> \<le> v * v" using 2(2) by (intro mult_mono) simp_all
    finally have sq: "round_double (v * v) = PInf" by (rule round_double_overflow)
    have "(0::real) < 2 ^ 589" by simp
    with 2(2) have v: "0 < v" "v \<noteq> 0" by linarith+
    have t1: "round_double (v * (1870344925246967 / 2 ^ 50)) = PInf
              \<or> (\<exists>w. round_double (v * (1870344925246967 / 2 ^ 50)) = Finite w)"
      by (cases "round_double (v * (1870344925246967 / 2 ^ 50))")
         (simp_all add: round_double_def Let_def split: if_splits,
          insert round_real_ge [of 1 0 "v * (1870344925246967 / 2 ^ 50)"] 2(2), simp_all)
    from t1 2 sq v show ?thesis
      by (auto simp: density_steps Let_def double_sub_def)
  qed
qed

text \<open>
  The forward error of the density for a velocity between 1500 and 8000 m/s, step by step:
  the error of each intermediate value is bounded by a multiple of \<open>1 / 2 ^ 53\<close>, for any
  constants within \<open>1 / 2 ^ 53\<close> of the decimal literals.
\<close>

lemma density_chain:
  fixes x c0 c1 c2 c3 c4 c5 :: real
  assumes x: "1500 \<le> x" "x \<le> 8000"
    and c0: "\<bar>c0 - 1 / 1000\<bar> \<le> 1 / 2 ^ 53"
    and c1: "\<bar>c1 - 16612 / 10000\<bar> \<le> 1 / 2 ^ 53"
    and c2: "\<bar>c2 - 4721 / 10000\<bar> \<le> 1 / 2 ^ 53"
    and c3: "\<bar>c3 - 671 / 10000\<bar> \<le> 1 / 2 ^ 53"
    and c4: "\<bar>c4 - 43 / 10000\<bar> \<le> 1 / 2 ^ 53"
    and c5: "\<bar>c5 - 106 / 1000000\<bar> \<le> 1 / 2 ^ 53"
  shows "\<exists>d. (let vp = double_mult (Finite x) (Finite c0);
                  t1 = double_mult vp (Finite c1);
                  t2 = double_mult (double_mult vp vp) (Finite c2);
                  t3 = double_mult (double_mult (double_mult vp vp) vp) (Finite c3);
                  t4 = double_mult (double_mult (double_mult (double_mult vp vp) vp) vp) (Finite c4);
                  t5 = double_mult (double_mult (double_mult (double_mult (double_mult vp vp) vp) vp) vp)
                         (Finite c5);
                  retVal = double_add (double_sub (double_add (double_sub t1 t2) t3) t4) t5;
                  retVal = (if double_less retVal (Finite 1) then Finite 1 else retVal)
              in double_mult retVal (Finite 1000)) = Finite d
            \<and> \<bar>d - 1000 * max 1 (nafe_drake (x / 1000))\<bar> \<le> 303035946 / 2 ^ 53"
proof -
  have low: "2 powi (- 1022) \<le> (1 / 1000 :: real)"
    by (simp add: power_int_minus_divide)
  have x_err: "\<bar>x - x\<bar> \<le> 0 / 2 ^ 53" and x_mag: "\<bar>x\<bar> \<le> 8000" using x by simp_all
  have k_err: "\<bar>(1000::real) - 1000\<bar> \<le> 0 / 2 ^ 53" and k_mag: "\<bar>1000::real\<bar> \<le> 1000" by simp_all
  have c0_mag: "\<bar>1 / 1000 :: real\<bar> \<le> 1 / 1000" and c1_mag: "\<bar>16612 / 10000 :: real\<bar> \<le> 16612 / 10000"
    and c2_mag: "\<bar>4721 / 10000 :: real\<bar> \<le> 4721 / 10000" and c3_mag: "\<bar>671 / 10000 :: real\<bar> \<le> 671 / 10000"
    and c4_mag: "\<bar>43 / 10000 :: real\<bar> \<le> 43 / 10000" and c5_mag: "\<bar>106 / 1000000 :: real\<bar> \<le> 106 / 1000000"
    by simp_all
  define v where "v = x * (1 / 1000)"
  define vh where "vh = round_real (x * c0)"
  have v_side: "(0 / 2 ^ 53 :: real) * (1 / 1000 + 1 / 2 ^ 53) + 8000 * (1 / 2 ^ 53) \<le> 8000 / 2 ^ 53"
      "(8000 :: real) * (1 / 1000) + 8000 / 2 ^ 53 \<le> 8001 / 1000"
      "2 powi (- 1022) \<le> (8001 / 1000 :: real)" "(8001 / 1000 :: real) \<le> 2 ^ 1000"
      "(8000 / 2 ^ 53 :: real) + (8001 / 1000) / 2 ^ 53 \<le> 8009 / 2 ^ 53"
    using low by simp_all
  note v_rule = rounded_product [OF x_err c0 x_mag c0_mag v_side]
  have v_eq: "round_double (x * c0) = Finite vh"
    and v_err: "\<bar>vh - v\<bar> \<le> 8009 / 2 ^ 53"
    and v_mag: "\<bar>v\<bar> \<le> 8"
    using v_rule unfolding v_def vh_def by simp_all
  define t1 where "t1 = v * (16612 / 10000)"
  define t1h where "t1h = round_real (vh * c1)"
  have t1_side: "(8009 / 2 ^ 53 :: real) * (16612 / 10000 + 1 / 2 ^ 53) + 8 * (1 / 2 ^ 53) \<le> 13313 / 2 ^ 53"
      "(8 :: real) * (16612 / 10000) + 13313 / 2 ^ 53 \<le> 1329 / 100"
      "2 powi (- 1022) \<le> (1329 / 100 :: real)" "(1329 / 100 :: real) \<le> 2 ^ 1000"
      "(13313 / 2 ^ 53 :: real) + (1329 / 100) / 2 ^ 53 \<le> 13327 / 2 ^ 53"
    using low by simp_all
  note t1_rule = rounded_product [OF v_err c1 v_mag c1_mag t1_side]
  have t1_eq: "round_double (vh * c1) = Finite t1h"
    and t1_err: "\<bar>t1h - t1\<bar> \<le> 13327 / 2 ^ 53"
    and t1_mag: "\<bar>t1\<bar> \<le> 8306 / 625"
    using t1_rule unfolding t1_def t1h_def by simp_all
  define p2 where "p2 = v * v"
  define p2h where "p2h = round_real (vh * vh)"
  have p2_side: "(8009 / 2 ^ 53 :: real) * (8 + 8009 / 2 ^ 53) + 8 * (8009 / 2 ^ 53) \<le> 128145 / 2 ^ 53"
      "(8 :: real) * (8) + 128145 / 2 ^ 53 \<le> 64001 / 1000"
      "2 powi (- 1022) \<le> (64001 / 1000 :: real)" "(64001 / 1000 :: real) \<le> 2 ^ 1000"
      "(128145 / 2 ^ 53 :: real) + (64001 / 1000) / 2 ^ 53 \<le> 128210 / 2 ^ 53"
    using low by simp_all
  note p2_rule = rounded_product [OF v_err v_err v_mag v_mag p2_side]
  have p2_eq: "round_double (vh * vh) = Finite p2h"
    and p2_err: "\<bar>p2h - p2\<bar> \<le> 128210 / 2 ^ 53"
    and p2_mag: "\<bar>p2\<bar> \<le> 64"
    using p2_rule unfolding p2_def p2h_def by simp_all
  define t2 where "t2 = p2 * (4721 / 10000)"
  define t2h where "t2h = round_real (p2h * c2)"
  have t2_side: "(128210 / 2 ^ 53 :: real) * (4721 / 10000 + 1 / 2 ^ 53) + 64 * (1 / 2 ^ 53) \<le> 60592 / 2 ^ 53"
      "(64 :: real) * (4721 / 10000) + 60592 / 2 ^ 53 \<le> 6043 / 200"
      "2 powi (- 1022) \<le> (6043 / 200 :: real)" "(6043 / 200 :: real) \<le> 2 ^ 1000"
      "(60592 / 2 ^ 53 :: real) + (6043 / 200) / 2 ^ 53 \<le> 60623 / 2 ^ 53"
    using low by simp_all
  note t2_rule = rounded_product [OF p2_err c2 p2_mag c2_mag t2_side]
  have t2_eq: "round_double (p2h * c2) = Finite t2h"
    and t2_err: "\<bar>t2h - t2\<bar> \<le> 60623 / 2 ^ 53"
    and t2_mag: "\<bar>t2\<bar> \<le> 18884 / 625"
    using t2_rule unfolding t2_def t2h_def by simp_all
  define p3 where "p3 = p2 * v"
  define p3h where "p3h = round_real (p2h * vh)"
  have p3_side: "(128210 / 2 ^ 53 :: real) * (8 + 8009 / 2 ^ 53) + 64 * (8009 / 2 ^ 53) \<le> 1538257 / 2 ^ 53"
      "(64 :: real) * (8) + 1538257 / 2 ^ 53 \<le> 512001 / 1000"
      "2 powi (- 1022) \<le> (512001 / 1000 :: real)" "(512001 / 1000 :: real) \<le> 2 ^ 1000"
      "(1538257 / 2 ^ 53 :: real) + (512001 / 1000) / 2 ^ 53 \<le> 1538770 / 2 ^ 53"
    using low by simp_all
  note p3_rule = rounded_product [OF p2_err v_err p2_mag v_mag p3_side]
  have p3_eq: "round_double (p2h * vh) = Finite p3h"
    and p3_err: "\<bar>p3h - p3\<bar> \<le> 1538770 / 2 ^ 53"
    and p3_mag: "\<bar>p3\<bar> \<le> 512"
    using p3_rule unfolding p3_def p3h_def by simp_all
  define t3 where "t3 = p3 * (671 / 10000)"
  define t3h where "t3h = round_real (p3h * c3)"
  have t3_side: "(1538770 / 2 ^ 53 :: real) * (671 / 10000 + 1 / 2 ^ 53) + 512 * (1 / 2 ^ 53) \<le> 103764 / 2 ^ 53"
      "(512 :: real) * (671 / 10000) + 103764 / 2 ^ 53 \<le> 8589 / 250"
      "2 powi (- 1022) \<le> (8589 / 250 :: real)" "(8589 / 250 :: real) \<le> 2 ^ 1000"
      "(103764 / 2 ^ 53 :: real) + (8589 / 250) / 2 ^ 53 \<le> 103799 / 2 ^ 53"
    using low by simp_all
  note t3_rule = rounded_product [OF p3_err c3 p3_mag c3_mag t3_side]
  have t3_eq: "round_double (p3h * c3) = Finite t3h"
    and t3_err: "\<bar>t3h - t3\<bar> \<le> 103799 / 2 ^ 53"
    and t3_mag: "\<bar>t3\<bar> \<le> 21472 / 625"
    using t3_rule unfolding t3_def t3h_def by simp_all
  define p4 where "p4 = p3 * v"
  define p4h where "p4h = round_real (p3h * vh)"
  have p4_side: "(1538770 / 2 ^ 53 :: real) * (8 + 8009 / 2 ^ 53) + 512 * (8009 / 2 ^ 53) \<le> 16410769 / 2 ^ 53"
      "(512 :: real) * (8) + 16410769 / 2 ^ 53 \<le> 4096001 / 1000"
      "2 powi (- 1022) \<le> (4096001 / 1000 :: real)" "(4096001 / 1000 :: real) \<le> 2 ^ 1000"
      "(16410769 / 2 ^ 53 :: real) + (4096001 / 1000) / 2 ^ 53 \<le> 16414866 / 2 ^ 53"
    using low by simp_all
  note p4_rule = rounded_product [OF p3_err v_err p3_mag v_mag p4_side]
  have p4_eq: "round_double (p3h * vh) = Finite p4h"
    and p4_err: "\<bar>p4h - p4\<bar> \<le> 16414866 / 2 ^ 53"
    and p4_mag: "\<bar>p4\<bar> \<le> 4096"
    using p4_rule unfolding p4_def p4h_def by simp_all
  define t4 where "t4 = p4 * (43 / 10000)"
  define t4h where "t4h = round_real (p4h * c4)"
  have t4_side: "(16414866 / 2 ^ 53 :: real) * (43 / 10000 + 1 / 2 ^ 53) + 4096 * (1 / 2 ^ 53) \<le> 74680 / 2 ^ 53"
      "(4096 :: real) * (43 / 10000) + 74680 / 2 ^ 53 \<le> 17613 / 1000"
      "2 powi (- 1022) \<le> (17613 / 1000 :: real)" "(17613 / 1000 :: real) \<le> 2 ^ 1000"
      "(74680 / 2 ^ 53 :: real) + (17613 / 1000) / 2 ^ 53 \<le> 74698 / 2 ^ 53"
    using low by simp_all
  note t4_rule = rounded_product [OF p4_err c4 p4_mag c4_mag t4_side]
  have t4_eq: "round_double (p4h * c4) = Finite t4h"
    and t4_err: "\<bar>t4h - t4\<bar> \<le> 74698 / 2 ^ 53"
    and t4_mag: "\<bar>t4\<bar> \<le> 11008 / 625"
    using t4_rule unfolding t4_def t4h_def by simp_all
  define p5 where "p5 = p4 * v"
  define p5h where "p5h = round_real (p4h * vh)"
  have p5_side: "(16414866 / 2 ^ 53 :: real) * (8 + 8009 / 2 ^ 53) + 4096 * (8009 / 2 ^ 53) \<le> 164123793 / 2 ^ 53"
      "(4096 :: real) * (8) + 164123793 / 2 ^ 53 \<le> 32768001 / 1000"
      "2 powi (- 1022) \<le> (32768001 / 1000 :: real)" "(32768001 / 1000 :: real) \<le> 2 ^ 1000"
      "(164123793 / 2 ^ 53 :: real) + (32768001 / 1000) / 2 ^ 53 \<le> 164156562 / 2 ^ 53"
    using low by simp_all
  note p5_rule = rounded_product [OF p4_err v_err p4_mag v_mag p5_side]
  have p5_eq: "round_double (p4h * vh) = Finite p5h"
    and p5_err: "\<bar>p5h - p5\<bar> \<le> 164156562 / 2 ^ 53"
    and p5_mag: "\<bar>p5\<bar> \<le> 32768"
    using p5_rule unfolding p5_def p5h_def by simp_all
  define t5 where "t5 = p5 * (106 / 1000000)"
  define t5h where "t5h = round_real (p5h * c5)"
  have t5_side: "(164156562 / 2 ^ 53 :: real) * (106 / 1000000 + 1 / 2 ^ 53) + 32768 * (1 / 2 ^ 53) \<le> 50169 / 2 ^ 53"
      "(32768 :: real) * (106 / 1000000) + 50169 / 2 ^ 53 \<le> 1737 / 500"
      "2 powi (- 1022) \<le> (1737 / 500 :: real)" "(1737 / 500 :: real) \<le> 2 ^ 1000"
      "(50169 / 2 ^ 53 :: real) + (1737 / 500) / 2 ^ 53 \<le> 50173 / 2 ^ 53"
    using low by simp_all
  note t5_rule = rounded_product [OF p5_err c5 p5_mag c5_mag t5_side]
  have t5_eq: "round_double (p5h * c5) = Finite t5h"
    and t5_err: "\<bar>t5h - t5\<bar> \<le> 50173 / 2 ^ 53"
    and t5_mag: "\<bar>t5\<bar> \<le> 54272 / 15625"
    using t5_rule unfolding t5_def t5h_def by simp_all
  have t2_neg: "\<bar>- t2h - (- t2)\<bar> \<le> 60623 / 2 ^ 53" "\<bar>- t2\<bar> \<le> 18884 / 625"
    using t2_err t2_mag by linarith+
  define s1 where "s1 = t1 - t2"
  define s1h where "s1h = round_real (t1h - t2h)"
  have s1_side: "(8306 / 625 :: real) + (18884 / 625) + 13327 / 2 ^ 53 + 60623 / 2 ^ 53 \<le> 8701 / 200"
      "2 powi (- 1022) \<le> (8701 / 200 :: real)" "(8701 / 200 :: real) \<le> 2 ^ 1000"
      "(13327 / 2 ^ 53 :: real) + 60623 / 2 ^ 53 + (8701 / 200) / 2 ^ 53 \<le> 73994 / 2 ^ 53"
    using low by simp_all
  note s1_rule = rounded_sum [OF t1_err t2_neg(1) t1_mag t2_neg(2) s1_side]
  have s1_eq: "round_double (t1h - t2h) = Finite s1h"
    and s1_err: "\<bar>s1h - s1\<bar> \<le> 73994 / 2 ^ 53"
    and s1_mag: "\<bar>s1\<bar> \<le> 5438 / 125"
    using s1_rule unfolding s1_def s1h_def by simp_all
  define s2 where "s2 = s1 + t3"
  define s2h where "s2h = round_real (s1h + t3h)"
  have s2_side: "(5438 / 125 :: real) + (21472 / 625) + 73994 / 2 ^ 53 + 103799 / 2 ^ 53 \<le> 3893 / 50"
      "2 powi (- 1022) \<le> (3893 / 50 :: real)" "(3893 / 50 :: real) \<le> 2 ^ 1000"
      "(73994 / 2 ^ 53 :: real) + 103799 / 2 ^ 53 + (3893 / 50) / 2 ^ 53 \<le> 177871 / 2 ^ 53"
    using low by simp_all
  note s2_rule = rounded_sum [OF s1_err t3_err s1_mag t3_mag s2_side]
  have s2_eq: "round_double (s1h + t3h) = Finite s2h"
    and s2_err: "\<bar>s2h - s2\<bar> \<le> 177871 / 2 ^ 53"
    and s2_mag: "\<bar>s2\<bar> \<le> 48662 / 625"
    using s2_rule unfolding s2_def s2h_def by simp_all
  have t4_neg: "\<bar>- t4h - (- t4)\<bar> \<le> 74698 / 2 ^ 53" "\<bar>- t4\<bar> \<le> 11008 / 625"
    using t4_err t4_mag by linarith+
  define s3 where "s3 = s2 - t4"
  define s3h where "s3h = round_real (s2h - t4h)"
  have s3_side: "(48662 / 625 :: real) + (11008 / 625) + 177871 / 2 ^ 53 + 74698 / 2 ^ 53 \<le> 95473 / 1000"
      "2 powi (- 1022) \<le> (95473 / 1000 :: real)" "(95473 / 1000 :: real) \<le> 2 ^ 1000"
      "(177871 / 2 ^ 53 :: real) + 74698 / 2 ^ 53 + (95473 / 1000) / 2 ^ 53 \<le> 252665 / 2 ^ 53"
    using low by simp_all
  note s3_rule = rounded_sum [OF s2_err t4_neg(1) s2_mag t4_neg(2) s3_side]
  have s3_eq: "round_double (s2h - t4h) = Finite s3h"
    and s3_err: "\<bar>s3h - s3\<bar> \<le> 252665 / 2 ^ 53"
    and s3_mag: "\<bar>s3\<bar> \<le> 11934 / 125"
    using s3_rule unfolding s3_def s3h_def by simp_all
  define s4 where "s4 = s3 + t5"
  define s4h where "s4h = round_real (s3h + t5h)"
  have s4_side: "(11934 / 125 :: real) + (54272 / 15625) + 252665 / 2 ^ 53 + 50173 / 2 ^ 53 \<le> 49473 / 500"
      "2 powi (- 1022) \<le> (49473 / 500 :: real)" "(49473 / 500 :: real) \<le> 2 ^ 1000"
      "(252665 / 2 ^ 53 :: real) + 50173 / 2 ^ 53 + (49473 / 500) / 2 ^ 53 \<le> 302937 / 2 ^ 53"
    using low by simp_all
  note s4_rule = rounded_sum [OF s3_err t5_err s3_mag t5_mag s4_side]
  have s4_eq: "round_double (s3h + t5h) = Finite s4h"
    and s4_err: "\<bar>s4h - s4\<bar> \<le> 302937 / 2 ^ 53"
    and s4_mag: "\<bar>s4\<bar> \<le> 1546022 / 15625"
    using s4_rule unfolding s4_def s4h_def by simp_all
  define r where "r = max 1 s4"
  define rh where "rh = (if s4h < 1 then 1 else s4h)"
  have rh_max: "rh = max 1 s4h"
    unfolding rh_def max_def by simp
  have r_err: "\<bar>rh - r\<bar> \<le> 302937 / 2 ^ 53"
    using s4_err unfolding r_def rh_max by linarith
  have r_mag: "\<bar>r\<bar> \<le> 1546022 / 15625"
    using s4_mag unfolding r_def by linarith
  have r_eq: "(if double_less (Finite s4h) (Finite 1) then Finite 1 else Finite s4h) = Finite rh"
    unfolding rh_def by simp
  define d where "d = r * (1000)"
  define dh where "dh = round_real (rh * 1000)"
  have d_side: "(302937 / 2 ^ 53 :: real) * (1000 + 0 / 2 ^ 53) + 1546022 / 15625 * (0 / 2 ^ 53) \<le> 302937000 / 2 ^ 53"
      "(1546022 / 15625 :: real) * (1000) + 302937000 / 2 ^ 53 \<le> 98945409 / 1000"
      "2 powi (- 1022) \<le> (98945409 / 1000 :: real)" "(98945409 / 1000 :: real) \<le> 2 ^ 1000"
      "(302937000 / 2 ^ 53 :: real) + (98945409 / 1000) / 2 ^ 53 \<le> 303035946 / 2 ^ 53"
    using low by simp_all
  note d_rule = rounded_product [OF r_err k_err r_mag k_mag d_side]
  have d_eq: "round_double (rh * 1000) = Finite dh"
    and d_err: "\<bar>dh - d\<bar> \<le> 303035946 / 2 ^ 53"
    and d_mag: "\<bar>d\<bar> \<le> 12368176 / 125"
    using d_rule unfolding d_def dh_def by simp_all
  have poly: "s4 = nafe_drake (x / 1000)"
    unfolding s4_def s3_def s2_def s1_def t1_def t2_def t3_def t4_def t5_def p2_def p3_def p4_def
      p5_def v_def nafe_drake_def
    by (simp add: power2_eq_square power3_eq_cube power4_eq_xxxx power_numeral_odd algebra_simps)
  have exact: "d = 1000 * max 1 (nafe_drake (x / 1000))"
    unfolding d_def r_def poly by simp
  have "(let vp = double_mult (Finite x) (Finite c0);
                  t1 = double_mult vp (Finite c1);
                  t2 = double_mult (double_mult vp vp) (Finite c2);
                  t3 = double_mult (double_mult (double_mult vp vp) vp) (Finite c3);
                  t4 = double_mult (double_mult (double_mult (double_mult vp vp) vp) vp) (Finite c4);
                  t5 = double_mult (double_mult (double_mult (double_mult (double_mult vp vp) vp) vp) vp)
                         (Finite c5);
                  retVal = double_add (double_sub (double_add (double_sub t1 t2) t3) t4) t5;
                  retVal = (if double_less retVal (Finite 1) then Finite 1 else retVal)
              in double_mult retVal (Finite 1000)) = Finite dh"
    unfolding Let_def double_sub_def double_mult.simps double_add.simps double_neg.simps
      v_eq p2_eq p3_eq p4_eq p5_eq t1_eq t2_eq t3_eq t4_eq t5_eq
    using s1_eq s2_eq s3_eq s4_eq d_eq
    by (cases "s4h < 1") (simp_all add: rh_def)
  with d_err exact show ?thesis by auto
qed

lemma density_close:
  assumes "1500 \<le> x" "x \<le> 8000"
  shows "\<exists>d. ivlsu_calculate_density (Finite x) = Finite d
             \<and> \<bar>d - 1000 * max 1 (nafe_drake (x / 1000))\<bar> \<le> 303035946 / 2 ^ 53"
  unfolding density_steps
  by (rule density_chain [OF assms]) simp_all

lemma density_exact_close:
  assumes "1500 \<le> x" "x \<le> 8000"
  shows "\<exists>d. ivlsu_calculate_density (Finite x) = Finite d
             \<and> \<bar>d - ivlsu_calculate_density_exact x\<bar> \<le> 303035946 / 2 ^ 53"
  using density_close [OF assms] unfolding density_nafe_drake by simp

lemma density_close_pair:
  assumes "1500 \<le> a" "a \<le> b" "b \<le> 8000"
  shows "\<exists>da db. ivlsu_calculate_density (Finite a) = Finite da
               \<and> ivlsu_calculate_density (Finite b) = Finite db
               \<and> \<bar>da - 1000 * max 1 (nafe_drake (a / 1000))\<bar> \<le> 303035946 / 2 ^ 53
               \<and> \<bar>db - 1000 * max 1 (nafe_drake (b / 1000))\<bar> \<le> 303035946 / 2 ^ 53
               \<and> da \<le> db + 1 / 10 ^ 7"
proof -
  from assms have a: "1500 \<le> a" "a \<le> 8000" and b: "1500 \<le> b" "b \<le> 8000" by linarith+
  from density_close [OF a] obtain da where
    da: "ivlsu_calculate_density (Finite a) = Finite da"
      "\<bar>da - 1000 * max 1 (nafe_drake (a / 1000))\<bar> \<le> 303035946 / 2 ^ 53" by blast
  from density_close [OF b] obtain db where
    db: "ivlsu_calculate_density (Finite b) = Finite db"
      "\<bar>db - 1000 * max 1 (nafe_drake (b / 1000))\<bar> \<le> 303035946 / 2 ^ 53" by blast
  from assms(2) have "a / 1000 \<le> b / 1000" by simp
  then have "nafe_drake (a / 1000) \<le> nafe_drake (b / 1000)" by (rule nafe_drake_mono)
  then have "1000 * max 1 (nafe_drake (a / 1000)) \<le> 1000 * max 1 (nafe_drake (b / 1000))"
    by (simp add: max_def)
  moreover have "2 * (303035946 / 2 ^ 53) \<le> (1 / 10 ^ 7 :: real)" by simp
  ultimately have "da \<le> db + 1 / 10 ^ 7" using da(2) db(2) by linarith
  with da db show ?thesis by blast
qed

subsection \<open>Truncation, rounding and remainder\<close>






subsection \<open>The calls of the accessor\<close>

lemma read_surrounding_calls:
  "set (fst (read_surrounding g ts k sp)) \<subseteq> set ts
   \<and> (snd (read_surrounding g ts k sp) \<noteq> None \<longrightarrow> fst (read_surrounding g ts k sp) = ts)"
proof (induction ts arbitrary: k sp)
  case Nil
  show ?case by simp
next
  case (Cons t ts)
  obtain x y z where t: "t = (x, y, z)" by (cases t)
  show ?case
  proof (cases "ivlsu_read_properties g x y z (sp k)")
    case None
    with t show ?thesis by simp
  next
    case (Some d)
    obtain calls r where rest: "read_surrounding g ts (Suc k) (sp(k := d)) = (calls, r)"
      by (cases "read_surrounding g ts (Suc k) (sp(k := d))")
    from Cons.IH [of "Suc k" "sp(k := d)"] have "set calls \<subseteq> set ts \<and> (r \<noteq> None \<longrightarrow> calls = ts)"
      unfolding rest by simp
    moreover have "read_surrounding g (t # ts) k sp = (t # calls, r)"
      using t Some rest by simp
    ultimately show ?thesis by auto
  qed
qed

lemma read_surrounding_plane:
  assumes "ivlsu_read_properties g lx ly lz (sp 0) = Some a"
    and "ivlsu_read_properties g (lx + 1) ly lz (sp 1) = Some b"
    and "ivlsu_read_properties g lx (ly + 1) lz (sp 2) = Some c'"
    and "ivlsu_read_properties g (lx + 1) (ly + 1) lz (sp 3) = Some e"
  shows "read_surrounding g (plane_indices lx ly lz) 0 sp
         = (plane_indices lx ly lz, Some (sp(0 := a, 1 := b, 2 := c', 3 := e)))"
  using assms by (simp add: plane_indices_def numeral_2_eq_2 numeral_3_eq_3)

lemma derive_rho_vs_vp: "vp (derive_rho_vs d) = vp d"
  by (simp add: derive_rho_vs_def Let_def)

lemma bilinear_interpolation_vp:
  "vp (ivlsu_bilinear_interpolation xp yp four r)
   = (1 - yp) * ((1 - xp) * vp (four 0) + xp * vp (four 1))
     + yp * ((1 - xp) * vp (four 2) + xp * vp (four 3))"
  by (simp add: ivlsu_bilinear_interpolation_def ivlsu_linear_interpolation_def Let_def)

subsection \<open>The ready flag\<close>











subsection \<open>Evaluation\<close>

text \<open>The definitions to unfold when the query is evaluated on the small model.\<close>

lemmas query_defs =
  ivlsu_query_def ivlsu_query_loop.simps ivlsu_query_point_def to_utm_def
  load_coords_def load_x_coord_def load_y_coord_def load_z_coord_def double_to_int_def
  c_round_def c_trunc_def c_fmod_def point_x_def point_y_def delta_lon_def delta_lat_def
  outside_boundaries_def x_interval_def y_interval_def x_percent_def y_percent_def z_percent_def
  gather_def plane_indices_def ivlsu_read_properties_def derive_rho_vs_def
  ivlsu_calculate_density_exact_def ivlsu_calculate_vs_def
  ivlsu_linear_interpolation_def ivlsu_bilinear_interpolation_def ivlsu_trilinear_interpolation_def
  Let_def SUCCESS_def sentinel_def calloc_properties_def

lemmas example_defs =
  example_globals_def example_globals_raw_def example_configuration_def example_pj_def
  example_lattice_def example_sp_def example_locals_def

lemmas init_defs =
  ivlsu_init_def ivlsu_read_configuration_def ivlsu_try_reading_model_def fits_def
  atan_quotient_def example_globals_no_config_def example_globals_stream_def
  calloc_configuration_def calloc_model_def initial_globals_def
  example_env_no_config_def example_env_no_memory_def FAIL_def

text \<open>The definitions to unfold when the density is evaluated on a double.\<close>

lemmas double_defs =
  ivlsu_calculate_density_def round_double_def round_real_def round_half_even_def
  double_sub_def ilog2.simps Let_def

text \<open>The small model is what the initialisation gives in its environment.\<close>

lemma example_globals_initialised:
  "ivlsu_init 1 example_env [] ''ivlsu'' initial_globals = Some (SUCCESS, example_globals)"
proof -
  have root: "sqrt 10000 = 100"
    using real_sqrt_abs [of 100] by simp
  show ?thesis
    by (simp add: init_defs example_env_def example_globals_def example_configuration_def
        example_lattice_def SUCCESS_def Let_def root)
qed

subsection \<open>The claims\<close>


text \<open>
  C8. A point with a negative depth gets the property tuple with all five fields at the
  sentinel -1, no lattice point is read for it, and the loop goes on with the next point:
  the body of the loop returns for it with the locals unchanged, the loop from its index
  is the loop from the next index on the output with that slot at the sentinel, and in
  the output of a query that returns, its slot is the sentinel tuple.
\<close>

theorem negative_depth_sentinel:
  "(depth p < 0 \<longrightarrow> ivlsu_query_point E g c st p d = ([], Some (st, sentinel)))
   \<and> (int i < n \<and> i < length points \<and> i < length data \<and> depth (points ! i) < 0 \<longrightarrow>
        ivlsu_query_loop E g c points n i st data
          = ivlsu_query_loop E g c points n (i + 1) st (data[i := sentinel]))
   \<and> (ivlsu_query E g sp0 points data n = Some (rc, out) \<and> int i < n \<and> depth (points ! i) < 0 \<longrightarrow>
        rc = SUCCESS \<and> out ! i = sentinel)"
proof (intro conjI impI)
  have point: "ivlsu_query_point E g c st p d = ([], Some (st, sentinel))" if "depth p < 0" for c st p d
    using that by (simp add: ivlsu_query_point_def sentinel_def)
  show "ivlsu_query_point E g c st p d = ([], Some (st, sentinel))" if "depth p < 0"
    using that by (rule point)
  show "ivlsu_query_loop E g c points n i st data
          = ivlsu_query_loop E g c points n (i + 1) st (data[i := sentinel])"
    if "int i < n \<and> i < length points \<and> i < length data \<and> depth (points ! i) < 0"
    using that by (subst ivlsu_query_loop.simps) (simp add: point)
  assume q: "ivlsu_query E g sp0 points data n = Some (rc, out) \<and> int i < n \<and> depth (points ! i) < 0"
  with query_result [of E g sp0 points data n rc out i]
  show "rc = SUCCESS" by simp
  from q query_result [of E g sp0 points data n rc out i]
  obtain c s s' where "snd (ivlsu_query_point E g c s (points ! i) (data ! i)) = Some (s', out ! i)"
    by blast
  with q point [of "points ! i" c s "data ! i"] show "out ! i = sentinel" by simp
qed

text \<open>
  The batch of an in-grid point followed by a point above the surface: the second slot is
  the sentinel tuple and the call returns \<open>SUCCESS\<close>.
\<close>

theorem negative_depth_sentinel_witness:
  "depth \<lparr> longitude = 5, latitude = 5, depth = - 10 \<rparr> < 0
   \<and> ivlsu_query 1 example_globals example_sp
         [\<lparr> longitude = 0, latitude = 0, depth = 0 \<rparr>, \<lparr> longitude = 5, latitude = 5, depth = - 10 \<rparr>]
         [calloc_properties, calloc_properties] 2
       = Some (SUCCESS, [\<lparr> vp = 100, vs = 8377323 / 12500, rho = 1000, qp = 0, qs = 0 \<rparr>, sentinel])
   \<and> [\<lparr> vp = 100, vs = 8377323 / 12500, rho = 1000, qp = 0, qs = 0 \<rparr>, sentinel] ! 1 = sentinel
   \<and> ivlsu_query_point 1 example_globals example_configuration example_locals
         \<lparr> longitude = 5, latitude = 5, depth = - 10 \<rparr> calloc_properties
       = ([], Some (example_locals, sentinel))"
proof -
  let ?p = "\<lparr> longitude = 5, latitude = 5, depth = - 10 \<rparr>"
  let ?points = "[\<lparr> longitude = 0, latitude = 0, depth = 0 \<rparr>, ?p]"
  let ?out = "[\<lparr> vp = 100, vs = 8377323 / 12500, rho = 1000, qp = 0, qs = 0 \<rparr>, sentinel]"
  have neg: "depth ?p < 0" by simp
  have run: "ivlsu_query 1 example_globals example_sp ?points [calloc_properties, calloc_properties] 2
             = Some (SUCCESS, ?out)"
    by (simp add: query_defs example_defs)
  have at: "int 1 < 2 \<and> depth (?points ! 1) < 0" by simp
  from negative_depth_sentinel [of ?p 1 example_globals example_configuration example_locals
      calloc_properties 1 2 ?points "[calloc_properties, calloc_properties]" example_sp SUCCESS ?out]
    neg run at
  show ?thesis by simp
qed

text \<open>
  C6 says that qp and qs are -1 in every property tuple the query writes. The code on the
  small model, with output slots that hold zeros: for the point outside the grid the
  boundary path writes -1 to vp, vs and rho and leaves qp = qs = 0, where the path for a
  negative depth, a few lines above it, writes all five fields; the interpolated point
  keeps qp = qs = 0 too, the accessor and the interpolation writing three fields only.
\<close>

theorem qp_qs_not_written:
  "ivlsu_query 1 example_globals example_sp
     [\<lparr> longitude = 20, latitude = 20, depth = 0 \<rparr>, \<lparr> longitude = 4, latitude = 4, depth = 0 \<rparr>]
     [calloc_properties, calloc_properties] 2
   = Some (SUCCESS, [\<lparr> vp = - 1, vs = - 1, rho = - 1, qp = 0, qs = 0 \<rparr>,
                     \<lparr> vp = 220, vs = 2153913789 / 3906250, rho = 1000, qp = 0, qs = 0 \<rparr>])
   \<and> qp \<lparr> vp = - 1, vs = - 1, rho = - 1, qp = 0, qs = 0 \<rparr> \<noteq> - 1
   \<and> qs \<lparr> vp = 220, vs = 2153913789 / 3906250, rho = 1000, qp = 0, qs = 0 \<rparr> \<noteq> - 1"
  by (simp add: query_defs example_defs)

text \<open>
  C10, as the specification states it, fails in binary64. 1502 and \<open>1502 + 1 / 2 ^ 42\<close>
  are doubles, one next to the other, in the range from 1500 to 8000 m/s, and the density
  at the larger one is the smaller, by one unit in the last place.
\<close>

theorem density_not_monotone:
  "round_double 1502 = Finite 1502
   \<and> round_double (1502 + 1 / 2 ^ 42) = Finite (1502 + 1 / 2 ^ 42)
   \<and> (1500::real) \<le> 1502 \<and> (1502::real) \<le> 1502 + 1 / 2 ^ 42
   \<and> (1502 + 1 / 2 ^ 42 :: real) \<le> 8000
   \<and> ivlsu_calculate_density (Finite 1502) = Finite (7196777298073675 / 2 ^ 42)
   \<and> ivlsu_calculate_density (Finite (1502 + 1 / 2 ^ 42)) = Finite (7196777298073674 / 2 ^ 42)
   \<and> double_less (ivlsu_calculate_density (Finite (1502 + 1 / 2 ^ 42)))
        (ivlsu_calculate_density (Finite 1502))"
  by (simp add: double_defs)

text \<open>
  C10, amended. Whatever the double passed, the density is never less than 1000: it is NaN,
  the positive infinity or a number that is at least 1000. For a velocity between 1500 and
  8000 m/s (1.5 to 8 km/s) the density is a number within \<open>303035946 / 2 ^ 53\<close> (less than
  3.4e-8) of 1000 times the larger of 1 and the Nafe-Drake polynomial at vp in km/s; so
  between two such velocities, the first not above the second, the density does not decrease
  by more than \<open>1 / 10 ^ 7\<close>.
\<close>

theorem density_nearly_monotone:
  "(ivlsu_calculate_density x = NaN \<or> ivlsu_calculate_density x = PInf
      \<or> (\<exists>v. ivlsu_calculate_density x = Finite v \<and> 1000 \<le> v))
   \<and> \<not> double_less (ivlsu_calculate_density x) (Finite 1000)
   \<and> (1500 \<le> a \<and> a \<le> b \<and> b \<le> 8000 \<longrightarrow>
        (\<exists>da db. ivlsu_calculate_density (Finite a) = Finite da
               \<and> ivlsu_calculate_density (Finite b) = Finite db
               \<and> \<bar>da - 1000 * max 1 (nafe_drake (a / 1000))\<bar> \<le> 303035946 / 2 ^ 53
               \<and> \<bar>db - 1000 * max 1 (nafe_drake (b / 1000))\<bar> \<le> 303035946 / 2 ^ 53
               \<and> da \<le> db + 1 / 10 ^ 7))"
proof -
  note low = density_at_least_1000 [of x]
  from low have not_less: "\<not> double_less (ivlsu_calculate_density x) (Finite 1000)"
    by auto
  from low not_less density_close_pair [of a b] show ?thesis by blast
qed

text \<open>The densities at 2000 and 6000 m/s, and the density at 400 m/s.\<close>

theorem density_nearly_monotone_witness:
  "(1500::real) \<le> 2000 \<and> (2000::real) \<le> 6000 \<and> (6000::real) \<le> 8000
   \<and> (\<exists>da db. ivlsu_calculate_density (Finite 2000) = Finite da
             \<and> ivlsu_calculate_density (Finite 6000) = Finite db
             \<and> \<bar>da - 1000 * max 1 (nafe_drake (2000 / 1000))\<bar> \<le> 303035946 / 2 ^ 53
             \<and> \<bar>db - 1000 * max 1 (nafe_drake (6000 / 1000))\<bar> \<le> 303035946 / 2 ^ 53
             \<and> da \<le> db + 1 / 10 ^ 7)
   \<and> \<not> double_less (ivlsu_calculate_density (Finite 400)) (Finite 1000)"
proof -
  have range: "(1500::real) \<le> 2000 \<and> (2000::real) \<le> 6000 \<and> (6000::real) \<le> 8000" by simp
  from density_nearly_monotone [of "Finite 400" 2000 6000] range show ?thesis by blast
qed



text \<open>
  The branch of lines 230 to 244 in terms of the accessor's calls: with the vertical
  index 0 and the vertical fraction zero, for a point that passes the boundary check,
  the accessor is called on the index triples (x, y, 0), (x + 1, y, 0), (x, y + 1, 0),
  (x + 1, y + 1, 0) only, and the result is the bilinear interpolation of what these
  calls return; with the interpolation off it is called once, on (x, y, 0). Whether the
  triples are lattice points is another matter.
\<close>

lemma bottom_plane_calls:
  assumes "\<not> depth p < 0"
    and "to_utm E g (longitude p) (latitude p) (point_u st) (point_v st) = Some (rc, u0, v0)"
    and "st1 = st \<lparr> point_u := u0 - bottom_left_corner_e c, point_v := v0 - bottom_left_corner_n c \<rparr>"
    and "load_coords g c (point_u st1) (point_v st1) p = Some (lx, ly, 0)"
    and "\<not> outside_boundaries c p lx ly 0"
    and "z_percent c p = 0"
    and "xp = x_percent g c (point_u st1)" and "yp = y_percent g c (point_v st1)"
    and "sp = surrounding_points st1"
    and "depth_interval c \<noteq> 0" and "x_interval g c \<noteq> 0" and "y_interval g c \<noteq> 0"
  shows "(interpolation c \<noteq> 0 \<longrightarrow>
            set (fst (ivlsu_query_point E g c st p d)) \<subseteq> set (plane_indices lx ly 0)
            \<and> (snd (ivlsu_query_point E g c st p d) \<noteq> None \<longrightarrow>
                 fst (ivlsu_query_point E g c st p d) = plane_indices lx ly 0)
            \<and> (ivlsu_read_properties g lx ly 0 (sp 0) = Some a
               \<and> ivlsu_read_properties g (lx + 1) ly 0 (sp 1) = Some b
               \<and> ivlsu_read_properties g lx (ly + 1) 0 (sp 2) = Some c'
               \<and> ivlsu_read_properties g (lx + 1) (ly + 1) 0 (sp 3) = Some e \<longrightarrow>
                 ivlsu_query_point E g c st p d
                   = (plane_indices lx ly 0,
                      Some (st1 \<lparr> surrounding_points := sp(0 := a, 1 := b, 2 := c', 3 := e) \<rparr>,
                            derive_rho_vs (ivlsu_bilinear_interpolation xp yp
                               (sp(0 := a, 1 := b, 2 := c', 3 := e)) d)))
                 \<and> vp (derive_rho_vs (ivlsu_bilinear_interpolation xp yp
                               (sp(0 := a, 1 := b, 2 := c', 3 := e)) d))
                   = (1 - yp) * ((1 - xp) * vp a + xp * vp b) + yp * ((1 - xp) * vp c' + xp * vp e)))
       \<and> (interpolation c = 0 \<longrightarrow>
            ivlsu_query_point E g c st p d
              = ([(lx, ly, 0)],
                 map_option (\<lambda>r. (st1, derive_rho_vs r)) (ivlsu_read_properties g lx ly 0 d))
            \<and> (\<forall>r. ivlsu_read_properties g lx ly 0 d = Some r \<longrightarrow> vp (derive_rho_vs r) = vp r))"
proof -
  let ?G = "gather g c st1 lx ly 0 xp yp 0 d"
  have qp: "ivlsu_query_point E g c st p d
            = (case ?G of (calls, None) \<Rightarrow> (calls, None)
               | (calls, Some (st', d')) \<Rightarrow> (calls, Some (st', derive_rho_vs d')))"
    using assms by (simp add: ivlsu_query_point_def Let_def)
  have on: "?G = (case read_surrounding g (plane_indices lx ly 0) 0 sp of
                    (calls, None) \<Rightarrow> (calls, None)
                  | (calls, Some sp') \<Rightarrow>
                      (calls, Some (st1 \<lparr> surrounding_points := sp' \<rparr>,
                                    ivlsu_bilinear_interpolation xp yp sp' d)))"
    if "interpolation c \<noteq> 0"
    using that assms(9) by (simp add: gather_def Let_def)
  have off: "?G = ([(lx, ly, 0)], map_option (Pair st1) (ivlsu_read_properties g lx ly 0 d))"
    if "interpolation c = 0"
    using that by (simp add: gather_def Let_def)
  have calls: "set (fst (ivlsu_query_point E g c st p d)) \<subseteq> set (plane_indices lx ly 0)
      \<and> (snd (ivlsu_query_point E g c st p d) \<noteq> None \<longrightarrow>
            fst (ivlsu_query_point E g c st p d) = plane_indices lx ly 0)"
    if i: "interpolation c \<noteq> 0"
    using read_surrounding_calls [of g "plane_indices lx ly 0" 0 sp]
    unfolding qp on [OF i] by (auto split: prod.splits option.splits)
  have four: "ivlsu_query_point E g c st p d
                   = (plane_indices lx ly 0,
                      Some (st1 \<lparr> surrounding_points := sp(0 := a, 1 := b, 2 := c', 3 := e) \<rparr>,
                            derive_rho_vs (ivlsu_bilinear_interpolation xp yp
                               (sp(0 := a, 1 := b, 2 := c', 3 := e)) d)))"
    if i: "interpolation c \<noteq> 0"
      and r: "ivlsu_read_properties g lx ly 0 (sp 0) = Some a
               \<and> ivlsu_read_properties g (lx + 1) ly 0 (sp 1) = Some b
               \<and> ivlsu_read_properties g lx (ly + 1) 0 (sp 2) = Some c'
               \<and> ivlsu_read_properties g (lx + 1) (ly + 1) 0 (sp 3) = Some e"
    unfolding qp on [OF i] using r by (simp add: read_surrounding_plane)
  have interp: "vp (derive_rho_vs (ivlsu_bilinear_interpolation xp yp
                               (sp(0 := a, 1 := b, 2 := c', 3 := e)) d))
                   = (1 - yp) * ((1 - xp) * vp a + xp * vp b) + yp * ((1 - xp) * vp c' + xp * vp e)"
    by (simp add: derive_rho_vs_vp bilinear_interpolation_vp)
  have raw: "ivlsu_query_point E g c st p d
              = ([(lx, ly, 0)],
                 map_option (\<lambda>r. (st1, derive_rho_vs r)) (ivlsu_read_properties g lx ly 0 d))"
    if i: "interpolation c = 0"
    unfolding qp off [OF i] by (cases "ivlsu_read_properties g lx ly 0 d") simp_all
  from calls four interp raw derive_rho_vs_vp show ?thesis by blast
qed

text \<open>
  C4 says that at the bottom plane (vertical index 0, vertical fraction zero) the
  interpolating query gathers only the four lattice points of that single plane and
  returns their bilinear interpolation. The code on the small model, of two points
  along each axis, at the point 25 metres east and 75 metres north of the corner, at
  depth 0: the indices are (0, 1, 0), the point passes the boundary check, and the
  accessor is called with (0, 2, 0) and (1, 2, 0), which are no lattice points; their
  locations 4 and 5 are those of (0, 0, 1) and (1, 0, 1), so that the result 475 blends
  300 and 400 of the plane z = 0 with 500 and 600 of the plane z = 1.
\<close>

theorem bottom_plane_blends_other_plane:
  "load_coords example_globals example_configuration 25 75
       \<lparr> longitude = 5 / 2, latitude = 15 / 2, depth = 0 \<rparr> = Some (0, 1, 0)
   \<and> \<not> outside_boundaries example_configuration
         \<lparr> longitude = 5 / 2, latitude = 15 / 2, depth = 0 \<rparr> 0 1 0
   \<and> z_percent example_configuration \<lparr> longitude = 5 / 2, latitude = 15 / 2, depth = 0 \<rparr> = 0
   \<and> interpolation example_configuration \<noteq> 0
   \<and> fst (ivlsu_query_point 1 example_globals example_configuration example_locals
         \<lparr> longitude = 5 / 2, latitude = 15 / 2, depth = 0 \<rparr> calloc_properties)
       = [(0, 1, 0), (1, 1, 0), (0, 2, 0), (1, 2, 0)]
   \<and> \<not> in_lattice example_configuration (0, 2, 0)
   \<and> \<not> in_lattice example_configuration (1, 2, 0)
   \<and> ivlsu_read_properties example_globals 0 2 0 calloc_properties
       = Some \<lparr> vp = 500, vs = - 1, rho = - 1, qp = 0, qs = 0 \<rparr>
   \<and> ivlsu_read_properties example_globals 0 0 1 calloc_properties
       = Some \<lparr> vp = 500, vs = - 1, rho = - 1, qp = 0, qs = 0 \<rparr>
   \<and> ivlsu_read_properties example_globals 1 2 0 calloc_properties
       = Some \<lparr> vp = 600, vs = - 1, rho = - 1, qp = 0, qs = 0 \<rparr>
   \<and> ivlsu_read_properties example_globals 1 0 1 calloc_properties
       = Some \<lparr> vp = 600, vs = - 1, rho = - 1, qp = 0, qs = 0 \<rparr>
   \<and> map_option (vp \<circ> snd)
         (snd (ivlsu_query_point 1 example_globals example_configuration example_locals
            \<lparr> longitude = 5 / 2, latitude = 15 / 2, depth = 0 \<rparr> calloc_properties))
       = Some 475"
  by (simp add: query_defs example_defs in_lattice_def)




text \<open>
  C1 says that a failing coordinate transformation is fatal to the query call and that
  the query never computes grid coordinates from stale (u, v). The code at a batch whose
  second point has the latitude 91, for which the transformation reports an error:
  \<open>to_utm\<close> returns the error code and leaves \<open>point_u\<close> and \<open>point_v\<close> at 200, the
  values translated for the first point; the query discards the return value,
  translates the stale values once more into the grid, answers the second point with
  the lattice value 400 and returns \<open>SUCCESS\<close>.
\<close>

theorem failed_transform_goes_on:
  "to_utm 1 example_globals_raw 0 91 200 200 = Some (1, 200, 200)
   \<and> ivlsu_query 1 example_globals_raw example_sp
        [\<lparr> longitude = 20, latitude = 20, depth = 0 \<rparr>, \<lparr> longitude = 0, latitude = 91, depth = 0 \<rparr>]
        [calloc_properties, calloc_properties] 2
      = Some (SUCCESS, [\<lparr> vp = - 1, vs = - 1, rho = - 1, qp = 0, qs = 0 \<rparr>,
                        \<lparr> vp = 400, vs = 1285827 / 3125, rho = 1000, qp = 0, qs = 0 \<rparr>])"
  by (simp add: query_defs example_defs)

text \<open>
  C2 says that for a point that passes the boundary check every index triple passed to
  the accessor lies within the lattice. The code on the small model, of two points
  along each axis: the point at the corner at depth 500 passes the check and the
  accessor is called with z = -1, a read before the start of the array; the point at
  the opposite corner at depth 0 passes the check and the accessor is called with
  x = 2 and y = 2.
\<close>

theorem reads_outside_lattice:
  "\<not> outside_boundaries example_configuration \<lparr> longitude = 0, latitude = 0, depth = 500 \<rparr> 0 0 0
   \<and> ivlsu_query_point 1 example_globals example_configuration example_locals
        \<lparr> longitude = 0, latitude = 0, depth = 500 \<rparr> calloc_properties
      = ([(0, 0, 0), (1, 0, 0), (0, 1, 0), (1, 1, 0), (0, 0, - 1)], None)
   \<and> \<not> in_lattice example_configuration (0, 0, - 1)
   \<and> \<not> outside_boundaries example_configuration \<lparr> longitude = 10, latitude = 10, depth = 0 \<rparr> 1 1 0
   \<and> fst (ivlsu_query_point 1 example_globals example_configuration example_locals
        \<lparr> longitude = 10, latitude = 10, depth = 0 \<rparr> calloc_properties)
      = [(1, 1, 0), (2, 1, 0), (1, 2, 0), (2, 2, 0)]
   \<and> \<not> in_lattice example_configuration (2, 1, 0)"
  by (simp add: query_defs example_defs in_lattice_def)

text \<open>
  C3 says that a read of the file-resident store seeks the grid file and returns the
  stored float as vp. The code after an initialisation that succeeds with \<open>malloc\<close>
  failing, so with the stream in \<open>model->vp\<close> and status 1: the read calls \<open>fseek\<close>
  and \<open>fread\<close> on the local \<open>fp\<close>, which is \<open>NULL\<close>, and is undefined.
\<close>

theorem file_resident_read_undefined:
  "ivlsu_init 1 example_env_no_memory [] ''ivlsu'' initial_globals
     = Some (SUCCESS, example_globals_stream)
   \<and> ivlsu_velocity_model example_globals_stream
      = Some \<lparr> vp_ptr = VpStream example_lattice, vp_status = 1 \<rparr>
   \<and> ivlsu_read_properties example_globals_stream 0 0 0 calloc_properties = None"
proof -
  have root: "sqrt 10000 = 100"
    using real_sqrt_abs [of 100] by simp
  show ?thesis
    by (simp add: init_defs example_globals_def example_configuration_def example_lattice_def
        SUCCESS_def Let_def root ivlsu_read_properties_def)
qed

end
